theory Spec2Isabelle
  imports Complex_Main
begin

section \<open>The numeric backend\<close>

text \<open>
  The optimizer of \<^verbatim>\<open>optimizer.py\<close> is an abstract class: scalar arithmetic, \<^verbatim>\<open>sqrt\<close>,
  \<^verbatim>\<open>cond\<close>, the comparisons, \<^verbatim>\<open>const\<close>, \<^verbatim>\<open>get_point\<close>, \<^verbatim>\<open>mkvar\<close> and the
  \<^verbatim>\<open>register_*\<close> methods are abstract methods whose bodies are not part of the sources.
  They are modelled here from the specification, in exact arithmetic: a scalar is a real
  number or the undefined value \<open>NaN\<close>, which every operation propagates and which stands
  for each non-finite result of the backend (a division by zero, the root of a negative
  number).
\<close>

datatype scalar = Val real | NaN

instantiation scalar :: "{zero, one, plus, minus, uminus, times, inverse, power}"
begin

definition zero_scalar :: scalar where
  "zero_scalar = Val 0"

definition one_scalar :: scalar where
  "one_scalar = Val 1"

fun plus_scalar :: "scalar \<Rightarrow> scalar \<Rightarrow> scalar" where
  "plus_scalar (Val a) (Val b) = Val (a + b)"
| "plus_scalar _ _ = NaN"

fun minus_scalar :: "scalar \<Rightarrow> scalar \<Rightarrow> scalar" where
  "minus_scalar (Val a) (Val b) = Val (a - b)"
| "minus_scalar _ _ = NaN"

fun uminus_scalar :: "scalar \<Rightarrow> scalar" where
  "uminus_scalar (Val a) = Val (- a)"
| "uminus_scalar NaN = NaN"

fun times_scalar :: "scalar \<Rightarrow> scalar \<Rightarrow> scalar" where
  "times_scalar (Val a) (Val b) = Val (a * b)"
| "times_scalar _ _ = NaN"

fun divide_scalar :: "scalar \<Rightarrow> scalar \<Rightarrow> scalar" where
  "divide_scalar (Val a) (Val b) = (if b = 0 then NaN else Val (a / b))"
| "divide_scalar _ _ = NaN"

fun inverse_scalar :: "scalar \<Rightarrow> scalar" where
  "inverse_scalar (Val a) = (if a = 0 then NaN else Val (inverse a))"
| "inverse_scalar NaN = NaN"

instance ..

end

text \<open>Modelled from the spec: \<^verbatim>\<open>const\<close>, the backend's constant of a Python number.\<close>

definition const :: "real \<Rightarrow> scalar" where
  "const v = Val v"

text \<open>Modelled from the spec: \<^verbatim>\<open>sqrt\<close>, undefined on a negative number. The source's
  \<^verbatim>\<open>x ** (1 / 2)\<close> of \<^verbatim>\<open>dist\<close> is the same operation.\<close>

fun sqrt_s :: "scalar \<Rightarrow> scalar" where
  "sqrt_s (Val a) = (if a < 0 then NaN else Val (sqrt a))"
| "sqrt_s NaN = NaN"

text \<open>Modelled from the spec: the backend's \<^verbatim>\<open>sin\<close>, \<^verbatim>\<open>cos\<close>, \<^verbatim>\<open>acos\<close>, \<^verbatim>\<open>tanh\<close>,
  \<^verbatim>\<open>sigmoid\<close>, \<^verbatim>\<open>exp\<close>, \<^verbatim>\<open>abs\<close>, \<^verbatim>\<open>max\<close> and \<^verbatim>\<open>sum\<close>.\<close>

fun lift_s :: "(real \<Rightarrow> real) \<Rightarrow> scalar \<Rightarrow> scalar" where
  "lift_s f (Val a) = Val (f a)"
| "lift_s f NaN = NaN"

definition sin_s :: "scalar \<Rightarrow> scalar" where
  "sin_s = lift_s sin"

definition cos_s :: "scalar \<Rightarrow> scalar" where
  "cos_s = lift_s cos"

fun acos_s :: "scalar \<Rightarrow> scalar" where
  "acos_s (Val a) = (if - 1 \<le> a \<and> a \<le> 1 then Val (arccos a) else NaN)"
| "acos_s NaN = NaN"

definition tanh_s :: "scalar \<Rightarrow> scalar" where
  "tanh_s = lift_s tanh"

definition sigmoid_s :: "scalar \<Rightarrow> scalar" where
  "sigmoid_s = lift_s (\<lambda>a. 1 / (1 + exp (- a)))"

definition exp_s :: "scalar \<Rightarrow> scalar" where
  "exp_s = lift_s exp"

definition abs_s :: "scalar \<Rightarrow> scalar" where
  "abs_s = lift_s abs"

fun max_s :: "scalar \<Rightarrow> scalar \<Rightarrow> scalar" where
  "max_s (Val a) (Val b) = Val (max a b)"
| "max_s _ _ = NaN"

definition sum_s :: "scalar list \<Rightarrow> scalar" where
  "sum_s xs = foldl (+) (Val 0) xs"

text \<open>Modelled from the spec: the comparisons \<^verbatim>\<open>lt\<close>, \<^verbatim>\<open>lte\<close>, \<^verbatim>\<open>gt\<close>, \<^verbatim>\<open>gte\<close> (false
  on an undefined operand), \<^verbatim>\<open>logical_or\<close>, and \<^verbatim>\<open>cond\<close>, the \<open>select(condition, then,
  else)\<close> of the spec. Both branches of a \<^verbatim>\<open>cond\<close> are values computed before the call;
  an undefined value in the branch that is not selected is dropped.\<close>

fun lt :: "scalar \<Rightarrow> scalar \<Rightarrow> bool" where
  "lt (Val a) (Val b) = (a < b)"
| "lt _ _ = False"

fun lte :: "scalar \<Rightarrow> scalar \<Rightarrow> bool" where
  "lte (Val a) (Val b) = (a \<le> b)"
| "lte _ _ = False"

definition gt :: "scalar \<Rightarrow> scalar \<Rightarrow> bool" where
  "gt u v = lt v u"

definition gte :: "scalar \<Rightarrow> scalar \<Rightarrow> bool" where
  "gte u v = lte v u"

definition logical_or :: "bool \<Rightarrow> bool \<Rightarrow> bool" where
  "logical_or p q = (p \<or> q)"

definition cond :: "bool \<Rightarrow> 'a \<Rightarrow> 'a \<Rightarrow> 'a" where
  "cond c t_val f_val = (if c then t_val else f_val)"

section \<open>Points, lines and circles\<close>

text \<open>Modelled from the spec: the point class behind \<^verbatim>\<open>get_point\<close>, an ordered pair of
  scalars with addition, subtraction, scalar multiplication \<^verbatim>\<open>smul\<close> and the components
  \<^verbatim>\<open>x\<close> and \<^verbatim>\<open>y\<close>.\<close>

datatype point = Point (pt_x: scalar) (pt_y: scalar)

instantiation point :: "{plus, minus}"
begin

definition plus_point :: "point \<Rightarrow> point \<Rightarrow> point" where
  "plus_point P Q = Point (pt_x P + pt_x Q) (pt_y P + pt_y Q)"

definition minus_point :: "point \<Rightarrow> point \<Rightarrow> point" where
  "minus_point P Q = Point (pt_x P - pt_x Q) (pt_y P - pt_y Q)"

instance ..

end

definition get_point :: "scalar \<Rightarrow> scalar \<Rightarrow> point" where
  "get_point u v = Point u v"

definition smul :: "point \<Rightarrow> scalar \<Rightarrow> point" where
  "smul P z = Point (pt_x P * z) (pt_y P * z)"

text \<open>The named tuples \<^verbatim>\<open>SlopeInterceptForm(m, b, p1, p2)\<close> and
  \<^verbatim>\<open>CircleNF(center, radius)\<close>.\<close>

datatype SlopeInterceptForm =
  SlopeInterceptForm (sif_m: scalar) (sif_b: scalar) (sif_p1: point) (sif_p2: point)

datatype CircleNF = CircleNF (center: point) (radius: scalar)

section \<open>The geometry kernel\<close>

definition midp :: "point \<Rightarrow> point \<Rightarrow> point" where
  "midp A B = smul (A + B) (Val (1 / 2))"

definition midp_from :: "point \<Rightarrow> point \<Rightarrow> point" where
  "midp_from M A = A + smul (M - A) (Val 2)"

definition sqdist :: "point \<Rightarrow> point \<Rightarrow> scalar" where
  "sqdist A B = (pt_x A - pt_x B) ^ 2 + (pt_y A - pt_y B) ^ 2"

definition dist_s :: "point \<Rightarrow> point \<Rightarrow> scalar" where
  "dist_s A B = sqrt_s (sqdist A B)"

definition inner_product :: "point \<Rightarrow> point \<Rightarrow> scalar" where
  "inner_product A B = pt_x A * pt_x B + pt_y A * pt_y B"

definition scalar_product :: "point \<Rightarrow> point \<Rightarrow> point \<Rightarrow> scalar" where
  "scalar_product O' A B =
     (let lhs = (pt_x A - pt_x O') * (pt_x B - pt_x O');
          rhs = (pt_y A - pt_y O') * (pt_y B - pt_y O')
      in lhs + rhs)"

definition matrix_mul :: "point \<times> point \<Rightarrow> point \<Rightarrow> point" where
  "matrix_mul mat pt =
     (case mat of (pt1, pt2) \<Rightarrow> get_point (inner_product pt1 pt) (inner_product pt2 pt))"

definition rotation_matrix :: "scalar \<Rightarrow> point \<times> point" where
  "rotation_matrix theta =
     (let r1 = get_point (cos_s theta) (- sin_s theta);
          r2 = get_point (sin_s theta) (cos_s theta)
      in (r1, r2))"

definition rotate_counterclockwise :: "scalar \<Rightarrow> point \<Rightarrow> point" where
  "rotate_counterclockwise theta pt = matrix_mul (rotation_matrix theta) pt"

definition rotate_clockwise_90 :: "point \<Rightarrow> point" where
  "rotate_clockwise_90 pt =
     matrix_mul (get_point (const 0) (const 1), get_point (const (- 1)) (const 0)) pt"

definition rotate_counterclockwise_90 :: "point \<Rightarrow> point" where
  "rotate_counterclockwise_90 pt =
     matrix_mul (get_point (const 0) (const (- 1)), get_point (const 1) (const 0)) pt"

definition side_lengths :: "point \<Rightarrow> point \<Rightarrow> point \<Rightarrow> scalar \<times> scalar \<times> scalar" where
  "side_lengths A B C = (dist_s B C, dist_s C A, dist_s A B)"

definition angle :: "point \<Rightarrow> point \<Rightarrow> point \<Rightarrow> scalar" where
  "angle A B C =
     (case side_lengths A B C of (a, b, c) \<Rightarrow>
        acos_s ((a ^ 2 + c ^ 2 - b ^ 2) / (Val 2 * a * c)))"

definition conway_vals :: "point \<Rightarrow> point \<Rightarrow> point \<Rightarrow> scalar \<times> scalar \<times> scalar" where
  "conway_vals A B C =
     (case side_lengths A B C of (a, b, c) \<Rightarrow>
        ((b ^ 2 + c ^ 2 - a ^ 2) / Val 2,
         (c ^ 2 + a ^ 2 - b ^ 2) / Val 2,
         (a ^ 2 + b ^ 2 - c ^ 2) / Val 2))"

definition trilinear ::
  "point \<Rightarrow> point \<Rightarrow> point \<Rightarrow> scalar \<Rightarrow> scalar \<Rightarrow> scalar \<Rightarrow> point" where
  "trilinear A B C u v w =
     (case side_lengths A B C of (a, b, c) \<Rightarrow>
        let denom = a * u + b * v + c * w
        in get_point ((a * u * pt_x A + b * v * pt_x B + c * w * pt_x C) / denom)
                     ((a * u * pt_y A + b * v * pt_y B + c * w * pt_y C) / denom))"

definition barycentric ::
  "point \<Rightarrow> point \<Rightarrow> point \<Rightarrow> scalar \<Rightarrow> scalar \<Rightarrow> scalar \<Rightarrow> point" where
  "barycentric A B C u v w =
     (case side_lengths A B C of (a, b, c) \<Rightarrow> trilinear A B C (u / a) (v / b) (w / c))"

definition circumcenter :: "point \<Rightarrow> point \<Rightarrow> point \<Rightarrow> point" where
  "circumcenter A B C =
     (case side_lengths A B C of (a, b, c) \<Rightarrow>
      case conway_vals A B C of (Sa, Sb, Sc) \<Rightarrow>
        barycentric A B C (a ^ 2 * Sa) (b ^ 2 * Sb) (c ^ 2 * Sc))"

definition orthocenter :: "point \<Rightarrow> point \<Rightarrow> point \<Rightarrow> point" where
  "orthocenter A B C =
     (case conway_vals A B C of (Sa, Sb, Sc) \<Rightarrow>
        barycentric A B C (Sb * Sc) (Sc * Sa) (Sa * Sb))"

definition centroid :: "point \<Rightarrow> point \<Rightarrow> point \<Rightarrow> point" where
  "centroid A B C = barycentric A B C (Val 1) (Val 1) (Val 1)"

definition incenter :: "point \<Rightarrow> point \<Rightarrow> point \<Rightarrow> point" where
  "incenter A B C = trilinear A B C (Val 1) (Val 1) (Val 1)"

definition excenter :: "point \<Rightarrow> point \<Rightarrow> point \<Rightarrow> point" where
  "excenter A B C = trilinear A B C (Val (- 1)) (Val 1) (Val 1)"

definition perp_phi :: "point \<Rightarrow> point \<Rightarrow> point \<Rightarrow> point \<Rightarrow> scalar" where
  "perp_phi A B C D =
     (pt_x A - pt_x B) * (pt_x C - pt_x D) + (pt_y A - pt_y B) * (pt_y C - pt_y D)"

definition para_phi :: "point \<Rightarrow> point \<Rightarrow> point \<Rightarrow> point \<Rightarrow> scalar" where
  "para_phi A B C D =
     (pt_x A - pt_x B) * (pt_y C - pt_y D) - (pt_y A - pt_y B) * (pt_x C - pt_x D)"

definition cong_diff :: "point \<Rightarrow> point \<Rightarrow> point \<Rightarrow> point \<Rightarrow> scalar" where
  "cong_diff A B C D = sqdist A B - sqdist C D"

definition coll_phi :: "point \<Rightarrow> point \<Rightarrow> point \<Rightarrow> scalar" where
  "coll_phi A B C =
     pt_x A * (pt_y B - pt_y C) + pt_x B * (pt_y C - pt_y A) + pt_x C * (pt_y A - pt_y B)"


text \<open>The helper \<^verbatim>\<open>diff_signs\<close> (defined last in the source) is used by the two gap
  functions.\<close>

definition diff_signs :: "scalar \<Rightarrow> scalar \<Rightarrow> scalar" where
  "diff_signs u v = max_s (const 0) (u * v)"

definition between_gap :: "point \<Rightarrow> point \<Rightarrow> point \<Rightarrow> scalar list" where
  "between_gap X A B =
     (let eps = Val (2 / 10);
          A1 = get_point (pt_x A + eps * (pt_x B - pt_x A)) (pt_y A + eps * (pt_y B - pt_y A));
          B1 = get_point (pt_x B + eps * (pt_x A - pt_x B)) (pt_y B + eps * (pt_y A - pt_y B))
      in [diff_signs (pt_x X - pt_x A1) (pt_x X - pt_x B1),
          diff_signs (pt_y X - pt_y A1) (pt_y X - pt_y B1)])"

definition onray_gap :: "point \<Rightarrow> point \<Rightarrow> point \<Rightarrow> scalar list" where
  "onray_gap X A B =
     (let eps = Val (2 / 10);
          A1 = get_point (pt_x A + eps * (pt_x B - pt_x A)) (pt_y A + eps * (pt_y B - pt_y A))
      in [diff_signs (pt_x X - pt_x A1) (pt_x A1 - pt_x B),
          diff_signs (pt_y X - pt_y A1) (pt_y A1 - pt_y B)])"

definition det3 :: "point \<Rightarrow> point \<Rightarrow> point \<Rightarrow> scalar" where
  "det3 A O' B =
     (let lhs = (pt_x A - pt_x O') * (pt_y B - pt_y O');
          rhs = (pt_y A - pt_y O') * (pt_x B - pt_x O')
      in lhs - rhs)"

definition side_score_prod :: "point \<Rightarrow> point \<Rightarrow> point \<Rightarrow> point \<Rightarrow> scalar" where
  "side_score_prod a b u v = det3 a u v * det3 b u v"

definition opp_sides :: "point \<Rightarrow> point \<Rightarrow> point \<Rightarrow> point \<Rightarrow> bool" where
  "opp_sides a b u v = lt (side_score_prod a b u v) (Val 0)"

definition same_side :: "point \<Rightarrow> point \<Rightarrow> point \<Rightarrow> point \<Rightarrow> bool" where
  "same_side a b u v = gt (side_score_prod a b u v) (Val 0)"

text \<open>Two points on a line to slope-intercept form (\<open>y = m x + b\<close>); a vertical line
  divides by zero.\<close>

definition pp2sif :: "point \<Rightarrow> point \<Rightarrow> SlopeInterceptForm" where
  "pp2sif p1 p2 =
     (case p1 of Point x1 y1 \<Rightarrow>
      case p2 of Point x2 y2 \<Rightarrow>
        let m = (y2 - y1) / (x2 - x1);
            b = y1 - m * x1
        in SlopeInterceptForm m b p1 p2)"

definition inter_ll :: "SlopeInterceptForm \<Rightarrow> SlopeInterceptForm \<Rightarrow> point" where
  "inter_ll sif1 sif2 =
     (case sif1 of SlopeInterceptForm m1 b1 _ _ \<Rightarrow>
      case sif2 of SlopeInterceptForm m2 b2 _ _ \<Rightarrow>
        let ix = (b2 - b1) / (m1 - m2);
            iy = m1 * ix + b1
        in get_point ix iy)"

definition shift :: "point \<Rightarrow> point list \<Rightarrow> point list" where
  "shift O' Ps = map (\<lambda>P. get_point (pt_x P - pt_x O') (pt_y P - pt_y O')) Ps"

definition unshift :: "point \<Rightarrow> point list \<Rightarrow> point list" where
  "unshift O' Ps = map (\<lambda>P. get_point (pt_x P + pt_x O') (pt_y P + pt_y O')) Ps"

text \<open>The line-circle intersection. The source binds \<^verbatim>\<open>P1, P2\<close> to the shifted points
  before the two local functions are defined, and calls both \<^verbatim>\<open>on_neg()\<close> and
  \<^verbatim>\<open>on_nneg()\<close> as the arguments of \<^verbatim>\<open>cond\<close>.\<close>

definition sgnstar :: "scalar \<Rightarrow> scalar" where
  "sgnstar u = cond (lt u (const 0)) (const (- 1)) (const 1)"

definition inter_pp_c :: "point \<Rightarrow> point \<Rightarrow> CircleNF \<Rightarrow> point list" where
  "inter_pp_c P1' P2' cnf =
     (case cnf of CircleNF O' r \<Rightarrow>
        let Ps = shift O' [P1', P2'];
            P1 = Ps ! 0;
            P2 = Ps ! 1;
            dx = pt_x P1 - pt_x P2;
            dy = pt_y P1 - pt_y P2;
            dr = sqrt_s (dx ^ 2 + dy ^ 2);
            D = pt_x P2 * pt_y P1 - pt_x P1 * pt_y P2;
            radicand = r ^ 2 * dr ^ 2 - D ^ 2;
            on_nneg =
              (let Q1 = get_point ((D * dy + sgnstar dy * dx * sqrt_s radicand) / (dr ^ 2))
                                  ((- D * dx + abs_s dy * sqrt_s radicand) / (dr ^ 2));
                   Q2 = get_point ((D * dy - sgnstar dy * dx * sqrt_s radicand) / (dr ^ 2))
                                  ((- D * dx - abs_s dy * sqrt_s radicand) / (dr ^ 2))
               in unshift O' [Q1, Q2]);
            on_neg =
              (let Operp = rotate_counterclockwise_90 (P1 - P2) + O';
                   F = inter_ll (pp2sif P1 P2) (pp2sif O' Operp);
                   X = O' + smul (F - O') (r / dist_s O' F);
                   Q = midp F X
               in unshift O' [Q, Q])
        in cond (lt radicand (const 0)) on_neg on_nneg)"

definition second_meet_pp_c :: "point \<Rightarrow> point \<Rightarrow> point \<Rightarrow> point" where
  "second_meet_pp_c A B O' =
     (let Is = inter_pp_c A B (CircleNF O' (dist_s O' A));
          P1 = Is ! 0;
          P2 = Is ! 1
      in cond (lt (sqdist A P1) (sqdist A P2)) P2 P1)"

definition amidp_opp :: "point \<Rightarrow> point \<Rightarrow> point \<Rightarrow> point" where
  "amidp_opp B C A =
     (let O' = circumcenter A B C;
          I = incenter A B C
      in second_meet_pp_c A I O')"

definition amidp_same :: "point \<Rightarrow> point \<Rightarrow> point \<Rightarrow> point" where
  "amidp_same B C A =
     (let M = amidp_opp B C A;
          O' = circumcenter A B C
      in second_meet_pp_c M O' O')"

definition radical_axis_pts :: "CircleNF \<Rightarrow> CircleNF \<Rightarrow> point \<times> point" where
  "radical_axis_pts cnf1 cnf2 =
     (case cnf1 of CircleNF (Point c1x c1y) r1 \<Rightarrow>
      case cnf2 of CircleNF (Point c2x c2y) r2 \<Rightarrow>
        let A = const 2 * (c2x - c1x);
            B = const 2 * (c2y - c1y);
            C = (r1 ^ 2 - r2 ^ 2) + (c2y ^ 2 - c1y ^ 2) + (c2x ^ 2 - c1x ^ 2);
            test = gt (abs_s A) (Val (1 / 10 ^ 6));
            p1 = cond test (get_point ((C - B) / A) (const 1)) (get_point (const 1) (C / B));
            p2 = cond test (get_point (C / A) (const 0)) (get_point (const 0) (C / B))
        in (p1, p2))"

definition radical_axis :: "CircleNF \<Rightarrow> CircleNF \<Rightarrow> SlopeInterceptForm" where
  "radical_axis cnf1 cnf2 = (case radical_axis_pts cnf1 cnf2 of (p1, p2) \<Rightarrow> pp2sif p1 p2)"

definition eqangle6_diff ::
  "point \<Rightarrow> point \<Rightarrow> point \<Rightarrow> point \<Rightarrow> point \<Rightarrow> point \<Rightarrow> scalar" where
  "eqangle6_diff A B C P Q R =
     (let s1 = det3 A B C;
          c1 = scalar_product A B C;
          s2 = det3 P Q R;
          c2 = scalar_product P Q R
      in Val (1 / 10) * (s1 * c2 - s2 * c1))"

definition cycl_diff :: "point \<Rightarrow> point \<Rightarrow> point \<Rightarrow> point \<Rightarrow> scalar" where
  "cycl_diff A B C D = eqangle6_diff A B D A C D"

definition eqangle8_diff ::
  "point \<Rightarrow> point \<Rightarrow> point \<Rightarrow> point \<Rightarrow> point \<Rightarrow> point \<Rightarrow> point \<Rightarrow> point \<Rightarrow> scalar" where
  "eqangle8_diff A B1 B2 C P Q1 Q2 R = eqangle6_diff A B1 (C - B2 + B1) P Q1 (R - Q2 + Q1)"

definition semiperimeter :: "point \<Rightarrow> point \<Rightarrow> point \<Rightarrow> scalar" where
  "semiperimeter A B C = (case side_lengths A B C of (a, b, c) \<Rightarrow> (a + b + c) / Val 2)"

definition area :: "point \<Rightarrow> point \<Rightarrow> point \<Rightarrow> scalar" where
  "area A B C =
     (case side_lengths A B C of (a, b, c) \<Rightarrow>
        let s = semiperimeter A B C
        in sqrt_s (s * (s - a) * (s - b) * (s - c)))"

definition inradius :: "point \<Rightarrow> point \<Rightarrow> point \<Rightarrow> scalar" where
  "inradius A B C = area A B C / semiperimeter A B C"

definition exradius :: "point \<Rightarrow> point \<Rightarrow> point \<Rightarrow> scalar" where
  "exradius A B C =
     (let r = inradius A B C in
      case side_lengths A B C of (a, b, c) \<Rightarrow>
        let s = (a + b + c) / Val 2
        in r * s / (s - a))"

definition mixtilinear_incenter :: "point \<Rightarrow> point \<Rightarrow> point \<Rightarrow> point" where
  "mixtilinear_incenter A B C =
     (let ta = angle C A B; tb = angle A B C; tc = angle B C A
      in trilinear A B C (Val (1 / 2) * (Val 1 + cos_s ta - cos_s tb - cos_s tc)) (Val 1) (Val 1))"

definition mixtilinear_inradius :: "point \<Rightarrow> point \<Rightarrow> point \<Rightarrow> scalar" where
  "mixtilinear_inradius A B C =
     (let r = inradius A B C;
          ta = angle C A B
      in r * (Val 1 / cos_s (ta / Val 2) ^ 2))"

definition to_trilinear :: "point \<Rightarrow> point \<Rightarrow> point \<Rightarrow> point \<Rightarrow> scalar \<times> scalar \<times> scalar" where
  "to_trilinear P A B C =
     (let la = pp2sif B C;
          lb = pp2sif C A;
          lc = pp2sif A B;
          ga = pp2sif P (P + rotate_counterclockwise_90 (C - B));
          gb = pp2sif P (P + rotate_counterclockwise_90 (A - C));
          gc = pp2sif P (P + rotate_counterclockwise_90 (B - A));
          da = dist_s P (inter_ll la ga);
          db = dist_s P (inter_ll lb gb);
          dc = dist_s P (inter_ll lc gc);
          da' = cond (opp_sides P A B C) (- da) da;
          db' = cond (opp_sides P B C A) (- db) db;
          dc' = cond (opp_sides P C A B) (- dc) dc
      in (da', db', dc'))"

definition invert_or_zero :: "scalar \<Rightarrow> scalar" where
  "invert_or_zero u = cond (lt (abs_s u) (Val (1 / 10 ^ 5))) (const 0) (const 1 / u)"

definition isogonal :: "point \<Rightarrow> point \<Rightarrow> point \<Rightarrow> point \<Rightarrow> point" where
  "isogonal P A B C =
     (case to_trilinear P A B C of (u, v, w) \<Rightarrow>
        trilinear A B C (invert_or_zero u) (invert_or_zero v) (invert_or_zero w))"

definition isotomic :: "point \<Rightarrow> point \<Rightarrow> point \<Rightarrow> point \<Rightarrow> point" where
  "isotomic P A B C =
     (case side_lengths A B C of (a, b, c) \<Rightarrow>
      case to_trilinear P A B C of (u, v, w) \<Rightarrow>
        trilinear A B C (a ^ 2 * invert_or_zero u) (b ^ 2 * invert_or_zero v)
          (c ^ 2 * invert_or_zero w))"

definition inverse_pt :: "point \<Rightarrow> point \<Rightarrow> point \<Rightarrow> point" where
  "inverse_pt X O' A = O' + smul (X - O') (sqdist O' A / sqdist O' X)"

text \<open>\<^verbatim>\<open>in_poly_phis(X, *Ps)\<close>: one residual per vertex \<open>i\<close>, over the vertices
  \<open>i\<close>, \<open>i + 1\<close>, \<open>i + 2\<close> (modulo the number of vertices).\<close>

definition in_poly_phis :: "point \<Rightarrow> point list \<Rightarrow> scalar list" where
  "in_poly_phis X Ps =
     (let n = length Ps
      in map (\<lambda>i. let A = Ps ! i; B = Ps ! ((i + 1) mod n); C = Ps ! ((i + 2) mod n)
                  in max_s (const 0) (- side_score_prod X C A B))
             [0..<n])"

definition pt_eq :: "point \<Rightarrow> point \<Rightarrow> bool" where
  "pt_eq p1 p2 = lt (dist_s p1 p2) (Val (1 / 10 ^ 6))"

definition pt_neq :: "point \<Rightarrow> point \<Rightarrow> bool" where
  "pt_neq p1 p2 = gt (dist_s p1 p2) (Val (1 / 10 ^ 6))"


section \<open>The optimizer state, errors and instructions\<close>

text \<open>The exceptions the interpreter can raise. \<open>NameError\<close> carries the unbound
  identifier. \<open>DuplicateName\<close> is the caller error of the spec for a name registered
  twice.\<close>

datatype error =
    KeyError
  | NameError string
  | ValueError
  | TypeError
  | AttributeError
  | IndexError
  | ZeroDivisionError
  | AssertionError
  | RuntimeError
  | NotImplementedError
  | DuplicateName string

text \<open>The instruction language. The module \<^verbatim>\<open>instruction\<close> is not part of the sources;
  the types follow the attributes the interpreter reads (\<^verbatim>\<open>pred\<close>, \<^verbatim>\<open>points\<close>,
  \<^verbatim>\<open>vars\<close>, \<^verbatim>\<open>sampler\<close>, \<^verbatim>\<open>args\<close>, \<^verbatim>\<open>point\<close>, \<^verbatim>\<open>computation\<close>,
  \<^verbatim>\<open>parameterization\<close>, \<^verbatim>\<open>constraint\<close>, \<^verbatim>\<open>negate\<close>) and the six variants of the
  spec. A line and a circle are both a predicate with point names.\<close>

datatype funcinfo = FuncInfo (fi_pred: string) (fi_points: "string list")

datatype rs_arg = RName string | RNames "string list" | RLine funcinfo

datatype root_select = RootSelect (rs_pred: string) (rs_vars: "rs_arg list")

datatype arg = APoints "string list" | ALine funcinfo | ACircle funcinfo | ARootSelect root_select

datatype constraint = Constraint (c_pred: string) (c_points: "string list") (c_negate: bool)

datatype instruction =
    Sample string "string list" "string list"
  | Compute string string "arg list"
  | Parameterize string string "arg list"
  | Assert constraint
  | AssertNDG constraint
  | Confirm constraint

text \<open>The fields of \<^verbatim>\<open>Optimizer.__init__\<close> (without \<^verbatim>\<open>opts\<close>, which the
  interpreter never reads). The dictionaries are insertion-ordered association lists.\<close>

record optimizer =
  name2pt :: "(string \<times> point) list"
  losses :: "(string \<times> scalar \<times> real) list"
  has_loss :: bool
  instructions :: "instruction list"
  ndgs :: "(string \<times> scalar \<times> real) list"
  goals :: "(string \<times> scalar) list"
  circles :: "(point \<times> scalar) list"
  segments :: "(point \<times> point) list"

definition Optimizer_init :: "instruction list \<Rightarrow> optimizer" where
  "Optimizer_init instrs =
     \<lparr>name2pt = [], losses = [], has_loss = False, instructions = instrs,
      ndgs = [], goals = [], circles = [], segments = []\<rparr>"

text \<open>A method is a function of the state that returns an error or a value, and the state
  as the method left it.\<close>

type_synonym 'a act = "optimizer \<Rightarrow> (error + 'a) \<times> optimizer"

definition ret :: "'a \<Rightarrow> 'a act" where
  "ret v st = (Inr v, st)"

definition raise :: "error \<Rightarrow> 'a act" where
  "raise e st = (Inl e, st)"

definition bnd :: "'a act \<Rightarrow> ('a \<Rightarrow> 'b act) \<Rightarrow> 'b act" where
  "bnd act f st = (case act st of (Inl e, st') \<Rightarrow> (Inl e, st') | (Inr v, st') \<Rightarrow> f v st')"

definition lift :: "error + 'a \<Rightarrow> 'a act" where
  "lift r st = (r, st)"

text \<open>Unpacking a list into a fixed number of variables (\<open>ValueError\<close> otherwise).\<close>

fun unpack1 :: "'a list \<Rightarrow> error + 'a" where
  "unpack1 [a] = Inr a"
| "unpack1 _ = Inl ValueError"

fun unpack2 :: "'a list \<Rightarrow> error + 'a \<times> 'a" where
  "unpack2 [a, b] = Inr (a, b)"
| "unpack2 _ = Inl ValueError"

fun unpack3 :: "'a list \<Rightarrow> error + 'a \<times> 'a \<times> 'a" where
  "unpack3 [a, b, c] = Inr (a, b, c)"
| "unpack3 _ = Inl ValueError"

fun unpack4 :: "'a list \<Rightarrow> error + 'a \<times> 'a \<times> 'a \<times> 'a" where
  "unpack4 [a, b, c, d] = Inr (a, b, c, d)"
| "unpack4 _ = Inl ValueError"

fun unpack5 :: "'a list \<Rightarrow> error + 'a \<times> 'a \<times> 'a \<times> 'a \<times> 'a" where
  "unpack5 [a, b, c, d, e] = Inr (a, b, c, d, e)"
| "unpack5 _ = Inl ValueError"

fun unpack6 :: "'a list \<Rightarrow> error + 'a \<times> 'a \<times> 'a \<times> 'a \<times> 'a \<times> 'a" where
  "unpack6 [a, b, c, d, e, f] = Inr (a, b, c, d, e, f)"
| "unpack6 _ = Inl ValueError"

text \<open>Spreading a list over the parameters of a function (\<^verbatim>\<open>f(*xs)\<close>): \<open>TypeError\<close>
  when the number of arguments is wrong.\<close>

definition spread :: "('a list \<Rightarrow> error + 'b) \<Rightarrow> 'a list \<Rightarrow> error + 'b" where
  "spread unpack xs = (case unpack xs of Inl _ \<Rightarrow> Inl TypeError | Inr v \<Rightarrow> Inr v)"

fun unpack8 :: "'a list \<Rightarrow> error + 'a \<times> 'a \<times> 'a \<times> 'a \<times> 'a \<times> 'a \<times> 'a \<times> 'a" where
  "unpack8 [a, b, c, d, e, f, g, h] = Inr (a, b, c, d, e, f, g, h)"
| "unpack8 _ = Inl ValueError"

text \<open>Python's \<^verbatim>\<open>str(i)\<close> of a natural number and \<^verbatim>\<open>'_'.join(ps)\<close>, for the generated
  labels.\<close>

definition digit_char :: "nat \<Rightarrow> char" where
  "digit_char n = char_of (48 + n)"

function string_of_nat :: "nat \<Rightarrow> string" where
  "string_of_nat n =
     (if n < 10 then [digit_char n] else string_of_nat (n div 10) @ [digit_char (n mod 10)])"
  by pat_completeness auto
termination
  by (relation "measure id") auto

declare string_of_nat.simps [simp del]

fun join_underscore :: "string list \<Rightarrow> string" where
  "join_underscore [] = []"
| "join_underscore [w] = w"
| "join_underscore (w # ws) = w @ ''_'' @ join_underscore ws"

text \<open>Assignment \<^verbatim>\<open>d[key] = value\<close> to an insertion-ordered dictionary.\<close>

fun dict_set :: "'k \<Rightarrow> 'v \<Rightarrow> ('k \<times> 'v) list \<Rightarrow> ('k \<times> 'v) list" where
  "dict_set k v [] = [(k, v)]"
| "dict_set k v (kv # kvs) = (if fst kv = k then (k, v) # kvs else kv # dict_set k v kvs)"

text \<open>Modelled from the spec: \<^verbatim>\<open>register_pt\<close>, \<^verbatim>\<open>register_loss\<close>,
  \<^verbatim>\<open>register_ndg\<close> and \<^verbatim>\<open>register_goal\<close>, abstract in the source. The name registry
  has unique keys and registering a name again is an error; the three residual
  registries map a label to the residual and its weight (a goal has no weight).\<close>

definition register_pt :: "string \<Rightarrow> point \<Rightarrow> unit act" where
  "register_pt p P st =
     (if p \<in> fst ` set (name2pt st) then (Inl (DuplicateName p), st)
      else (Inr (), st\<lparr>name2pt := name2pt st @ [(p, P)]\<rparr>))"

definition register_loss :: "string \<Rightarrow> scalar \<Rightarrow> real \<Rightarrow> unit act" where
  "register_loss key var weight st = (Inr (), st\<lparr>losses := dict_set key (var, weight) (losses st)\<rparr>)"

definition register_ndg :: "string \<Rightarrow> scalar \<Rightarrow> real \<Rightarrow> unit act" where
  "register_ndg key var weight st = (Inr (), st\<lparr>ndgs := dict_set key (var, weight) (ndgs st)\<rparr>)"

definition register_goal :: "string \<Rightarrow> scalar \<Rightarrow> unit act" where
  "register_goal key var st = (Inr (), st\<lparr>goals := dict_set key var (goals st)\<rparr>)"

text \<open>The appends to the figure accumulators \<^verbatim>\<open>self.circles\<close> and
  \<^verbatim>\<open>self.segments\<close>.\<close>

definition circles_append :: "point \<times> scalar \<Rightarrow> unit act" where
  "circles_append c st = (Inr (), st\<lparr>circles := circles st @ [c]\<rparr>)"

definition segments_extend :: "(point \<times> point) list \<Rightarrow> unit act" where
  "segments_extend segs st = (Inr (), st\<lparr>segments := segments st @ segs\<rparr>)"

text \<open>The abstract methods whose results the spec leaves open are parameters of the
  interpreter: \<^verbatim>\<open>mkvar(name, lo, hi)\<close>, the value of a fresh free variable, and
  \<^verbatim>\<open>simplify(p, method)\<close>.\<close>

record backend =
  mkvar :: "string \<Rightarrow> real \<Rightarrow> real \<Rightarrow> scalar"
  simplify :: "point \<Rightarrow> string \<Rightarrow> point"

fun lookup_pts :: "string list \<Rightarrow> point list act" where
  "lookup_pts [] st = (Inr [], st)"
| "lookup_pts (p # ps) st =
     (case map_of (name2pt st) p of
        None \<Rightarrow> (Inl KeyError, st)
      | Some P \<Rightarrow>
          (case lookup_pts ps st of
             (Inl e, st') \<Rightarrow> (Inl e, st')
           | (Inr Ps, st') \<Rightarrow> (Inr (P # Ps), st')))"


text \<open>\<^verbatim>\<open>A, B = self.lookup_pts(ps)\<close> and its variants with more variables.\<close>

definition lookup1 :: "string list \<Rightarrow> point act" where
  "lookup1 ps = bnd (lookup_pts ps) (\<lambda>Ps. lift (unpack1 Ps))"

definition lookup2 :: "string list \<Rightarrow> (point \<times> point) act" where
  "lookup2 ps = bnd (lookup_pts ps) (\<lambda>Ps. lift (unpack2 Ps))"

definition lookup3 :: "string list \<Rightarrow> (point \<times> point \<times> point) act" where
  "lookup3 ps = bnd (lookup_pts ps) (\<lambda>Ps. lift (unpack3 Ps))"

definition lookup4 :: "string list \<Rightarrow> (point \<times> point \<times> point \<times> point) act" where
  "lookup4 ps = bnd (lookup_pts ps) (\<lambda>Ps. lift (unpack4 Ps))"

definition lookup5 :: "string list \<Rightarrow> (point \<times> point \<times> point \<times> point \<times> point) act" where
  "lookup5 ps = bnd (lookup_pts ps) (\<lambda>Ps. lift (unpack5 Ps))"

definition lookup6 ::
  "string list \<Rightarrow> (point \<times> point \<times> point \<times> point \<times> point \<times> point) act" where
  "lookup6 ps = bnd (lookup_pts ps) (\<lambda>Ps. lift (unpack6 Ps))"

text \<open>A sequential loop over a list.\<close>

fun for_each :: "('a \<Rightarrow> unit act) \<Rightarrow> 'a list \<Rightarrow> unit act" where
  "for_each body [] = ret ()"
| "for_each body (x # xs) = bnd (body x) (\<lambda>_. for_each body xs)"

section \<open>Lines, circles and root selection\<close>

text \<open>\<^verbatim>\<open>line2twoPts\<close>. Every caller unpacks the result into two points at once, so the
  \<open>connecting\<close> branch, which returns the looked-up list as it is, fails with
  \<open>ValueError\<close> here for a list of another length. The \<open>eqoangle\<close> branch reads the
  unbound identifier \<^verbatim>\<open>A\<close>.\<close>

definition line2twoPts :: "funcinfo \<Rightarrow> (point \<times> point) act" where
  "line2twoPts l =
     (let pred = fi_pred l; ps = fi_points l in
      if pred = ''connecting'' then lookup2 ps
      else if pred = ''paraAt'' then
        bnd (lookup3 ps) (\<lambda>(X, A, B). ret (X, X + B - A))
      else if pred = ''perpAt'' then
        bnd (lookup3 ps) (\<lambda>(X, A, B). ret (X, X + rotate_counterclockwise_90 (A - B)))
      else if pred = ''mediator'' then
        bnd (lookup2 ps) (\<lambda>(A, B).
          let M = midp A B in ret (M, M + rotate_counterclockwise_90 (A - B)))
      else if pred = ''ibisector'' then
        bnd (lookup3 ps) (\<lambda>(A, B, C).
          let X = B + smul (A - B) (dist_s B C / dist_s B A);
              M = midp X C
          in ret (B, M))
      else if pred = ''ebisector'' then
        bnd (lookup3 ps) (\<lambda>(A, B, C).
          let X = B + smul (A - B) (dist_s B C / dist_s B A);
              M = midp X C;
              Y = B + rotate_counterclockwise_90 (M - B)
          in ret (B, Y))
      else if pred = ''eqoangle'' then
        bnd (lookup5 ps) (\<lambda>_. raise (NameError ''A''))
      else raise RuntimeError)"

definition line2sif :: "funcinfo \<Rightarrow> SlopeInterceptForm act" where
  "line2sif l = bnd (line2twoPts l) (\<lambda>(p1, p2). ret (pp2sif p1 p2))"

text \<open>\<^verbatim>\<open>circ2nf\<close>. The \<open>diam\<close> branch calls the unbound identifier \<^verbatim>\<open>dist\<close>.\<close>

definition circ2nf :: "funcinfo \<Rightarrow> CircleNF act" where
  "circ2nf circ =
     (let pred = fi_pred circ; ps = fi_points circ in
      if pred = ''c3'' then
        bnd (lookup3 ps) (\<lambda>(A, B, C).
          let O' = circumcenter A B C in ret (CircleNF O' (dist_s O' A)))
      else if pred = ''coa'' then
        bnd (lookup2 ps) (\<lambda>(O', A). ret (CircleNF O' (dist_s O' A)))
      else if pred = ''cong'' then
        bnd (lookup3 ps) (\<lambda>(O', X, Y). ret (CircleNF O' (dist_s X Y)))
      else if pred = ''diam'' then
        bnd (lookup2 ps) (\<lambda>(B, C).
          let O' = midp B C in raise (NameError ''dist''))
      else raise RuntimeError)"

text \<open>The arguments of a root selector are read in two ways: \<^verbatim>\<open>lookup_pts(rs_args)\<close>
  uses each argument as a key of the registry (a list is not hashable, a line is no
  key), and \<^verbatim>\<open>lookup_pts(rs_args[0])\<close> iterates over one argument (a list of names, or
  the characters of a name).\<close>

fun lookup_keys :: "rs_arg list \<Rightarrow> point list act" where
  "lookup_keys [] = ret []"
| "lookup_keys (RName p # ks) =
     bnd (lookup_pts [p]) (\<lambda>P. bnd (lookup_keys ks) (\<lambda>Ps. ret (P @ Ps)))"
| "lookup_keys (RNames _ # ks) = raise TypeError"
| "lookup_keys (RLine _ # ks) = raise KeyError"

fun rs_index :: "rs_arg list \<Rightarrow> nat \<Rightarrow> error + rs_arg" where
  "rs_index [] _ = Inl IndexError"
| "rs_index (k # ks) 0 = Inr k"
| "rs_index (k # ks) (Suc i) = rs_index ks i"

fun lookup_iter :: "rs_arg \<Rightarrow> point list act" where
  "lookup_iter (RNames ps) = lookup_pts ps"
| "lookup_iter (RName p) = lookup_pts (map (\<lambda>c. [c]) p)"
| "lookup_iter (RLine _) = raise TypeError"

fun rs_line :: "rs_arg \<Rightarrow> error + funcinfo" where
  "rs_line (RLine l) = Inr l"
| "rs_line _ = Inl AttributeError"

definition process_rs :: "point \<Rightarrow> point \<Rightarrow> root_select \<Rightarrow> point act" where
  "process_rs P1 P2 root_select =
     (let pred = rs_pred root_select; rs_args = rs_vars root_select in
      if pred = ''neq'' then
        bnd (lookup_keys rs_args) (\<lambda>Ps. bnd (lift (unpack1 Ps)) (\<lambda>pt.
          ret (cond (pt_neq P1 pt) P1 P2)))
      else if pred = ''closerTo'' then
        bnd (lookup_keys rs_args) (\<lambda>Ps. bnd (lift (unpack1 Ps)) (\<lambda>pt.
          let test = lte (sqdist P1 pt) (sqdist P2 pt) in ret (cond test P1 P2)))
      else if pred = ''furtherFrom'' then
        bnd (lookup_keys rs_args) (\<lambda>Ps. bnd (lift (unpack1 Ps)) (\<lambda>pt.
          let test = lt (sqdist P2 pt) (sqdist P1 pt) in ret (cond test P1 P2)))
      else if pred = ''oppSides'' then
        bnd (lift (rs_index rs_args 0)) (\<lambda>k0. bnd (lookup_iter k0) (\<lambda>Ps.
        bnd (lift (unpack1 Ps)) (\<lambda>pt.
        bnd (lift (rs_index rs_args 1)) (\<lambda>k1. bnd (lift (rs_line k1)) (\<lambda>l.
        bnd (line2twoPts l) (\<lambda>(a, b). ret (cond (opp_sides P1 pt a b) P1 P2)))))))
      else if pred = ''sameSide'' then
        bnd (lift (rs_index rs_args 0)) (\<lambda>k0. bnd (lookup_iter k0) (\<lambda>Ps.
        bnd (lift (unpack1 Ps)) (\<lambda>pt.
        bnd (lift (rs_index rs_args 1)) (\<lambda>k1. bnd (lift (rs_line k1)) (\<lambda>l.
        bnd (line2twoPts l) (\<lambda>(a, b). ret (cond (same_side P1 pt a b) P1 P2)))))))
      else if pred = ''arbitrary'' then ret P2
      else raise NotImplementedError)"

text \<open>What an argument of a \<open>Compute\<close> or \<open>Parameterize\<close> instruction is when
  the handler reads it: a list of names to iterate over, an object with \<^verbatim>\<open>pred\<close> and
  \<^verbatim>\<open>points\<close>, or a root selector.\<close>

fun names_of :: "arg \<Rightarrow> error + string list" where
  "names_of (APoints ps) = Inr ps"
| "names_of _ = Inl TypeError"

fun funcinfo_of :: "arg \<Rightarrow> error + funcinfo" where
  "funcinfo_of (ALine l) = Inr l"
| "funcinfo_of (ACircle c) = Inr c"
| "funcinfo_of _ = Inl AttributeError"

fun root_select_of :: "arg \<Rightarrow> error + root_select" where
  "root_select_of (ARootSelect r) = Inr r"
| "root_select_of _ = Inl AttributeError"

definition inter_lc :: "SlopeInterceptForm \<Rightarrow> CircleNF \<Rightarrow> arg \<Rightarrow> point act" where
  "inter_lc l c root_select =
     (let p1 = sif_p1 l; p2 = sif_p2 l;
          Is = inter_pp_c p1 p2 c;
          I1 = Is ! 0; I2 = Is ! 1
      in bnd (circles_append (center c, radius c)) (\<lambda>_.
         bnd (lift (root_select_of root_select)) (\<lambda>rs. process_rs I1 I2 rs)))"

definition inter_cc :: "CircleNF \<Rightarrow> CircleNF \<Rightarrow> arg \<Rightarrow> point act" where
  "inter_cc cnf1 cnf2 root_select =
     (let l = radical_axis cnf1 cnf2 in
      bnd (inter_lc l cnf1 root_select) (\<lambda>result.
      bnd (circles_append (center cnf1, radius cnf1)) (\<lambda>_.
      bnd (circles_append (center cnf2, radius cnf2)) (\<lambda>_. ret result))))"

text \<open>The loss of \<^verbatim>\<open>make_lc_intersect\<close>, before it is registered.\<close>

definition lc_intersect_loss :: "SlopeInterceptForm \<Rightarrow> CircleNF \<Rightarrow> scalar" where
  "lc_intersect_loss l c =
     (case l of SlopeInterceptForm _ _ A B \<Rightarrow>
      case c of CircleNF O' r \<Rightarrow>
        let Operp = rotate_counterclockwise_90 (A - B) + O';
            F = inter_ll l (pp2sif O' Operp);
            d = dist_s O' F;
            f_val = cond (lt r d) d (const 0)
        in cond (logical_or (lt (dist_s O' Operp) (Val (1 / 10 ^ 6)))
                            (lt (dist_s A B) (Val (1 / 10 ^ 6))))
             (const 0) f_val)"

definition make_lc_intersect :: "string \<Rightarrow> SlopeInterceptForm \<Rightarrow> CircleNF \<Rightarrow> unit act" where
  "make_lc_intersect name l c =
     register_loss (''interLC_'' @ name) (lc_intersect_loss l c) (1 / 10)"

text \<open>\<^verbatim>\<open>harmonic_l_conj\<close> calls the unbound identifier \<^verbatim>\<open>const\<close> while the arguments
  of its first statement are evaluated, and \<^verbatim>\<open>eqratio_diff\<close> the unbound identifier
  \<^verbatim>\<open>dist\<close>.\<close>

definition harmonic_l_conj :: "point \<Rightarrow> point \<Rightarrow> point \<Rightarrow> error + point" where
  "harmonic_l_conj X A B = Inl (NameError ''const'')"

definition eqratio_diff ::
  "point \<Rightarrow> point \<Rightarrow> point \<Rightarrow> point \<Rightarrow> point \<Rightarrow> point \<Rightarrow> point \<Rightarrow> point \<Rightarrow> error + scalar" where
  "eqratio_diff A B C D P Q R S = Inl (NameError ''dist'')"


section \<open>Sampling\<close>

definition sample_uniform :: "backend \<Rightarrow> string list \<Rightarrow> unit act" where
  "sample_uniform bk ps =
     bnd (lift (unpack1 ps)) (\<lambda>p.
       let P = get_point (mkvar bk (p @ ''x'') (- 1) 1) (mkvar bk (p @ ''y'') (- 1) 1)
       in register_pt p P)"

text \<open>The loop of \<^verbatim>\<open>sample_polygon\<close> that appends one vertex for each \<open>i\<close> of
  \<^verbatim>\<open>range(2, len(ps) + 1)\<close>.\<close>

fun polygon_pts ::
  "backend \<Rightarrow> scalar \<Rightarrow> scalar list \<Rightarrow> scalar list \<Rightarrow> nat list \<Rightarrow> point list \<Rightarrow> point list" where
  "polygon_pts bk s angles scales [] Ps = Ps"
| "polygon_pts bk s angles scales (i # rest) Ps =
     (let A = Ps ! (length Ps - 2);
          B = Ps ! (length Ps - 1);
          X = B + rotate_counterclockwise (- (angles ! (i - 1))) (A - B);
          P = B + smul (X - B) (s * (Val 1 + scales ! (i - 1)) / dist_s X B)
      in polygon_pts bk s angles scales rest (Ps @ [simplify bk P ''trig'']))"

definition sample_polygon :: "backend \<Rightarrow> string list \<Rightarrow> unit act" where
  "sample_polygon bk ps =
     (let n = length ps;
          angle_zs = map (\<lambda>i. mkvar bk (''polygon_angle_zs_'' @ string_of_nat i) (- (1 / 2)) (1 / 2))
                       [0..<n]
      in if n = 0 then raise ZeroDivisionError
         else
           let multiplicand = ((real n - 2) / real n) * pi + (pi / 3);
               angles = map (\<lambda>az. Val multiplicand * tanh_s (Val (2 / 10) * az)) angle_zs;
               scale_zs = map (\<lambda>i. mkvar bk (''polygon_scale_zs_'' @ string_of_nat i) (- 1) 1)
                            [0..<n];
               scales = map (\<lambda>sz. Val (1 / 2) * tanh_s (Val (2 / 10) * sz)) scale_zs;
               Ps0 = [get_point (const (- 2)) (const 0), get_point (const 2) (const 0)];
               s = dist_s (Ps0 ! 0) (Ps0 ! 1);
               Ps = polygon_pts bk s angles scales [2..<n + 1] Ps0;
               angle_sum = sum_s angles;
               expected_angle_sum = pi * (real n - 2)
           in bnd (register_loss ''polygon-angle-sum'' (angle_sum - Val expected_angle_sum) (1 / 10))
                (\<lambda>_.
              bnd (register_loss ''polygon-first-eq-last'' (dist_s (Ps ! 0) (Ps ! n)) (1 / 100))
                (\<lambda>_.
              bnd (register_loss ''polygon-first-angle-eq-sampled''
                     (angles ! 0 - angle (last Ps) (Ps ! 0) (Ps ! 1)) (1 / 100))
                (\<lambda>_.
              bnd (for_each (\<lambda>i. segments_extend [(Ps ! i, Ps ! ((i + 1) mod n))]) [0..<n])
                (\<lambda>_.
              for_each (\<lambda>(p, P). register_pt p P) (zip ps (butlast Ps)))))))"

text \<open>Python's truth value of an optional name: \<^verbatim>\<open>None\<close> and the empty string are
  false.\<close>

fun truthy :: "string option \<Rightarrow> bool" where
  "truthy None = False"
| "truthy (Some w) = (w \<noteq> [])"

definition sample_triangle ::
  "backend \<Rightarrow> string list \<Rightarrow> string option \<Rightarrow> string option \<Rightarrow> bool \<Rightarrow> bool \<Rightarrow> unit act" where
  "sample_triangle bk ps iso' right' acute equi =
     (if \<not> (truthy iso' \<or> truthy right' \<or> acute \<or> equi) then sample_polygon bk ps
      else
        bnd (lift (unpack3 ps)) (\<lambda>(nA, nB, nC).
          let B = get_point (const (- 2)) (const 0);
              C = get_point (const 2) (const 0);
              Ax = (if iso' \<noteq> None \<or> equi then const 0 else mkvar bk ''tri_x'' (- 1) (12 / 10));
              Ay = (if right' \<noteq> None then sqrt_s (Val 4 - Ax ^ 2)
                    else if equi then Val 2 * sqrt_s (const 3)
                    else
                      let AyLo = (if acute then 11 / 10 else 4 / 10);
                          z = mkvar bk ''tri'' (- 1) 1
                      in const AyLo + Val 3 * sigmoid_s z);
              A = get_point Ax Ay;
              ABC = (if iso' = Some nB \<or> right' = Some nB then (B, A, C)
                     else if iso' = Some nC \<or> right' = Some nC then (C, B, A)
                     else (A, B, C))
          in case ABC of (A, B, C) \<Rightarrow>
               bnd (register_pt nA A) (\<lambda>_.
               bnd (register_pt nB B) (\<lambda>_.
               bnd (register_pt nC C) (\<lambda>_.
               segments_extend [(A, B), (B, C), (C, A)])))))"

text \<open>\<^verbatim>\<open>sample\<close> binds \<^verbatim>\<open>s_args = i.args\<close> and then reads \<^verbatim>\<open>args[0]\<close> in three
  branches; \<^verbatim>\<open>args\<close> is not bound.\<close>

definition sample :: "backend \<Rightarrow> string \<Rightarrow> string list \<Rightarrow> string list \<Rightarrow> unit act" where
  "sample bk s_method points s_args =
     (if s_method = ''acuteIsoTri'' then raise (NameError ''args'')
      else if s_method = ''acuteTri'' then sample_triangle bk points None None True False
      else if s_method = ''equiTri'' then sample_triangle bk points None None False True
      else if s_method = ''isoTri'' then raise (NameError ''args'')
      else if s_method = ''polygon'' then sample_polygon bk points
      else if s_method = ''rightTri'' then raise (NameError ''args'')
      else if s_method = ''triangle'' then sample_triangle bk points None None False False
      else if s_method = ''uniform'' then sample_uniform bk points
      else raise NotImplementedError)"

section \<open>Computing\<close>

definition compute_midp :: "string \<Rightarrow> arg \<Rightarrow> unit act" where
  "compute_midp m a =
     bnd (lift (names_of a)) (\<lambda>ps. bnd (lookup2 ps) (\<lambda>(A, B).
       let M = midp A B in
       bnd (register_pt m M) (\<lambda>_. segments_extend [(A, B)])))"

definition compute_midp_from :: "string \<Rightarrow> arg \<Rightarrow> unit act" where
  "compute_midp_from p a =
     bnd (lift (names_of a)) (\<lambda>ps. bnd (lookup2 ps) (\<lambda>(M, A).
       let P = midp_from M A in
       bnd (register_pt p P) (\<lambda>_. segments_extend [(P, A)])))"

definition compute_amidp_opp :: "string \<Rightarrow> arg \<Rightarrow> unit act" where
  "compute_amidp_opp p a =
     bnd (lift (names_of a)) (\<lambda>ps. bnd (lookup3 ps) (\<lambda>(B, C, A).
       register_pt p (amidp_opp B C A)))"

definition compute_amidp_same :: "string \<Rightarrow> arg \<Rightarrow> unit act" where
  "compute_amidp_same p a =
     bnd (lift (names_of a)) (\<lambda>ps. bnd (lookup3 ps) (\<lambda>(B, C, A).
       register_pt p (amidp_same B C A)))"

definition compute_circumcenter :: "string \<Rightarrow> arg \<Rightarrow> unit act" where
  "compute_circumcenter o' a =
     bnd (lift (names_of a)) (\<lambda>ps. bnd (lookup3 ps) (\<lambda>(A, B, C).
       let O' = circumcenter A B C in
       bnd (register_pt o' O') (\<lambda>_. circles_append (O', dist_s O' A))))"

definition compute_orthocenter :: "string \<Rightarrow> arg \<Rightarrow> unit act" where
  "compute_orthocenter h a =
     bnd (lift (names_of a)) (\<lambda>ps. bnd (lookup3 ps) (\<lambda>(A, B, C).
       register_pt h (orthocenter A B C)))"

definition compute_centroid :: "string \<Rightarrow> arg \<Rightarrow> unit act" where
  "compute_centroid g a =
     bnd (lift (names_of a)) (\<lambda>ps. bnd (lookup3 ps) (\<lambda>(A, B, C).
       register_pt g (centroid A B C)))"

definition compute_incenter :: "string \<Rightarrow> arg \<Rightarrow> unit act" where
  "compute_incenter i a =
     bnd (lift (names_of a)) (\<lambda>ps. bnd (lookup3 ps) (\<lambda>(A, B, C).
       let I = incenter A B C in
       bnd (register_pt i I) (\<lambda>_. circles_append (I, inradius A B C))))"

definition compute_excenter :: "string \<Rightarrow> arg \<Rightarrow> unit act" where
  "compute_excenter i a =
     bnd (lift (names_of a)) (\<lambda>ps. bnd (lookup3 ps) (\<lambda>(A, B, C).
       let I = excenter A B C in
       bnd (register_pt i I) (\<lambda>_. circles_append (I, exradius A B C))))"

definition compute_inter_ll :: "string \<Rightarrow> arg \<Rightarrow> arg \<Rightarrow> unit act" where
  "compute_inter_ll p l1 l2 =
     bnd (lift (funcinfo_of l1)) (\<lambda>f1. bnd (line2sif f1) (\<lambda>sif1.
     bnd (lift (funcinfo_of l2)) (\<lambda>f2. bnd (line2sif f2) (\<lambda>sif2.
       register_pt p (inter_ll sif1 sif2)))))"

definition compute_inter_lc :: "string \<Rightarrow> arg \<Rightarrow> arg \<Rightarrow> arg \<Rightarrow> unit act" where
  "compute_inter_lc p l c root_select =
     bnd (lift (funcinfo_of l)) (\<lambda>fl. bnd (line2sif fl) (\<lambda>l_sif.
     bnd (lift (funcinfo_of c)) (\<lambda>fc. bnd (circ2nf fc) (\<lambda>cnf.
     bnd (inter_lc l_sif cnf root_select) (\<lambda>P.
     bnd (make_lc_intersect p l_sif cnf) (\<lambda>_. register_pt p P))))))"

definition compute_inter_cc :: "string \<Rightarrow> arg \<Rightarrow> arg \<Rightarrow> arg \<Rightarrow> unit act" where
  "compute_inter_cc p c1 c2 root_select =
     bnd (lift (funcinfo_of c1)) (\<lambda>f1. bnd (circ2nf f1) (\<lambda>cnf1.
     bnd (lift (funcinfo_of c2)) (\<lambda>f2. bnd (circ2nf f2) (\<lambda>cnf2.
     bnd (inter_cc cnf1 cnf2 root_select) (\<lambda>P.
     bnd (make_lc_intersect p (radical_axis cnf1 cnf2) cnf1) (\<lambda>_. register_pt p P))))))"

definition compute_mixtilinear_incenter :: "string \<Rightarrow> arg \<Rightarrow> unit act" where
  "compute_mixtilinear_incenter i a =
     bnd (lift (names_of a)) (\<lambda>ps. bnd (lookup3 ps) (\<lambda>(A, B, C).
       let I = mixtilinear_incenter A B C in
       bnd (register_pt i I) (\<lambda>_. circles_append (I, mixtilinear_inradius A B C))))"

definition compute_isogonal :: "string \<Rightarrow> arg \<Rightarrow> unit act" where
  "compute_isogonal y a =
     bnd (lift (names_of a)) (\<lambda>ps. bnd (lookup4 ps) (\<lambda>(X, A, B, C).
       register_pt y (isogonal X A B C)))"

definition compute_isotomic :: "string \<Rightarrow> arg \<Rightarrow> unit act" where
  "compute_isotomic y a =
     bnd (lift (names_of a)) (\<lambda>ps. bnd (lookup4 ps) (\<lambda>(X, A, B, C).
       register_pt y (isotomic X A B C)))"

definition compute_inverse :: "string \<Rightarrow> arg \<Rightarrow> unit act" where
  "compute_inverse y a =
     bnd (lift (names_of a)) (\<lambda>ps. bnd (lookup3 ps) (\<lambda>(X, O', A).
       let Y = inverse_pt X O' A in
       bnd (register_pt y Y) (\<lambda>_. circles_append (O', dist_s O' A))))"

definition compute_harmonic_l_conj :: "string \<Rightarrow> arg \<Rightarrow> unit act" where
  "compute_harmonic_l_conj y a =
     bnd (lift (names_of a)) (\<lambda>ps. bnd (lookup3 ps) (\<lambda>(X, A, B).
     bnd (lift (harmonic_l_conj X A B)) (\<lambda>Y.
     bnd (register_pt y Y) (\<lambda>_.
     bnd (segments_extend [(A, B)]) (\<lambda>_. segments_extend [(X, Y)])))))"

text \<open>\<^verbatim>\<open>c_args[k]\<close> of a computation \<^verbatim>\<open>(method, arg_1, arg_2, ...)\<close>, for \<open>k \<ge> 1\<close>.\<close>

fun arg_index :: "arg list \<Rightarrow> nat \<Rightarrow> error + arg" where
  "arg_index [] _ = Inl IndexError"
| "arg_index (a # as) k = (if k \<le> 1 then Inr a else arg_index as (k - 1))"

definition compute :: "string \<Rightarrow> string \<Rightarrow> arg list \<Rightarrow> unit act" where
  "compute p c_method c_args =
     (let with1 = (\<lambda>h. bnd (lift (arg_index c_args 1)) (\<lambda>a1. h p a1));
          with2 = (\<lambda>h. bnd (lift (arg_index c_args 1)) (\<lambda>a1.
                       bnd (lift (arg_index c_args 2)) (\<lambda>a2. h p a1 a2)));
          with3 = (\<lambda>h. bnd (lift (arg_index c_args 1)) (\<lambda>a1.
                       bnd (lift (arg_index c_args 2)) (\<lambda>a2.
                       bnd (lift (arg_index c_args 3)) (\<lambda>a3. h p a1 a2 a3))))
      in
      if c_method = ''amidpOpp'' then with1 compute_amidp_opp
      else if c_method = ''amidpSame'' then with1 compute_amidp_same
      else if c_method = ''centroid'' then with1 compute_centroid
      else if c_method = ''circumcenter'' then with1 compute_circumcenter
      else if c_method = ''excenter'' then with1 compute_excenter
      else if c_method = ''harmonicLConj'' then with1 compute_harmonic_l_conj
      else if c_method = ''incenter'' then with1 compute_incenter
      else if c_method = ''interLL'' then with2 compute_inter_ll
      else if c_method = ''interLC'' then with3 compute_inter_lc
      else if c_method = ''interCC'' then with3 compute_inter_cc
      else if c_method = ''isogonal'' then with1 compute_isogonal
      else if c_method = ''isotomic'' then with1 compute_isotomic
      else if c_method = ''inverse'' then with1 compute_inverse
      else if c_method = ''midp'' then with1 compute_midp
      else if c_method = ''midpFrom'' then with1 compute_midp_from
      else if c_method = ''mixtilinearIncenter'' then with1 compute_mixtilinear_incenter
      else if c_method = ''orthocenter'' then with1 compute_orthocenter
      else raise NotImplementedError)"


section \<open>Parameterizing\<close>

definition parameterize_coords :: "backend \<Rightarrow> string \<Rightarrow> unit act" where
  "parameterize_coords bk p = sample_uniform bk [p]"

definition parameterize_on_seg :: "backend \<Rightarrow> string \<Rightarrow> arg \<Rightarrow> unit act" where
  "parameterize_on_seg bk p a =
     bnd (lift (names_of a)) (\<lambda>ps. bnd (lookup2 ps) (\<lambda>(A, B).
       let z0 = mkvar bk (p @ ''_seg'') (- 1) 1;
           z = Val (2 / 10) * z0
       in bnd (register_loss (p @ ''_seg_regularization'') z (1 / 10 ^ 4)) (\<lambda>_.
          bnd (register_pt p (A + smul (B - A) (sigmoid_s z))) (\<lambda>_.
          segments_extend [(A, B)]))))"

definition parameterize_on_line :: "backend \<Rightarrow> string \<Rightarrow> arg \<Rightarrow> unit act" where
  "parameterize_on_line bk p l =
     bnd (lift (funcinfo_of l)) (\<lambda>fl. bnd (line2twoPts fl) (\<lambda>(A, B).
       let z0 = mkvar bk (p @ ''_line'') (- 1) 1;
           z = Val (2 / 10) * z0
       in bnd (register_loss (p @ ''_line_regularization'') z (1 / 10 ^ 4)) (\<lambda>_.
          let s = Val 3;
              P1 = A + smul (A - B) s;
              P2 = B + smul (B - A) s
          in bnd (register_pt p (P1 + smul (P2 - P1) (sigmoid_s z))) (\<lambda>_.
             segments_extend [(A, B)]))))"

definition parameterize_on_ray :: "backend \<Rightarrow> string \<Rightarrow> arg \<Rightarrow> unit act" where
  "parameterize_on_ray bk p a =
     bnd (lift (names_of a)) (\<lambda>ps. bnd (lookup2 ps) (\<lambda>(A, B).
       let z = mkvar bk (p @ ''_ray'') (- 1) 1;
           P = A + smul (B - A) (exp_s z)
       in bnd (register_pt p P) (\<lambda>_. segments_extend [(A, B), (A, P)])))"

definition parameterize_on_ray_opp :: "backend \<Rightarrow> string \<Rightarrow> arg \<Rightarrow> unit act" where
  "parameterize_on_ray_opp bk p a =
     bnd (lift (names_of a)) (\<lambda>ps. bnd (lookup2 ps) (\<lambda>(A, B).
       let z = mkvar bk (p @ ''_ray_opp'') (- 1) 1;
           P = A + smul (A - B) (exp_s z)
       in bnd (register_pt p P) (\<lambda>_. segments_extend [(A, B), (A, P)])))"

definition parameterize_on_circ :: "backend \<Rightarrow> string \<Rightarrow> arg \<Rightarrow> unit act" where
  "parameterize_on_circ bk p circ =
     bnd (lift (funcinfo_of circ)) (\<lambda>fc. bnd (circ2nf fc) (\<lambda>cnf.
       case cnf of CircleNF O' r \<Rightarrow>
         let rot = mkvar bk (p @ ''_rot'') (- 1) 1;
             theta = rot * Val 2 * const pi;
             X = get_point (pt_x O' + r * cos_s theta) (pt_y O' + r * sin_s theta)
         in bnd (register_pt p X) (\<lambda>_. circles_append (O', r))))"

definition softmax :: "scalar list \<Rightarrow> scalar list" where
  "softmax xs =
     (let exps = map exp_s xs;
          sum_exps = sum_s exps
      in map (\<lambda>e. e / sum_exps) exps)"

definition parameterize_in_poly :: "backend \<Rightarrow> string \<Rightarrow> arg \<Rightarrow> unit act" where
  "parameterize_in_poly bk p a =
     bnd (lift (names_of a)) (\<lambda>ps. bnd (lookup_pts ps) (\<lambda>Ps.
       let zs = map (\<lambda>poly_p. mkvar bk (p @ ''_in_poly_'' @ poly_p) (- 1) 1) ps;
           ws = softmax zs;
           Px = sum_s (map (\<lambda>(P, w). pt_x P * w) (zip Ps ws));
           Py = sum_s (map (\<lambda>(P, w). pt_y P * w) (zip Ps ws));
           P = get_point Px Py
       in register_pt p P))"

definition parameterize :: "backend \<Rightarrow> string \<Rightarrow> string \<Rightarrow> arg list \<Rightarrow> unit act" where
  "parameterize bk p p_method p_args =
     (let with1 = (\<lambda>h. bnd (lift (arg_index p_args 1)) (\<lambda>a1. h bk p a1)) in
      if p_method = ''coords'' then parameterize_coords bk p
      else if p_method = ''inPoly'' then with1 parameterize_in_poly
      else if p_method = ''onCirc'' then with1 parameterize_on_circ
      else if p_method = ''onLine'' then with1 parameterize_on_line
      else if p_method = ''onRay'' then with1 parameterize_on_ray
      else if p_method = ''onRayOpp'' then with1 parameterize_on_ray_opp
      else if p_method = ''onSeg'' then with1 parameterize_on_seg
      else raise NotImplementedError)"

section \<open>Assertions\<close>

text \<open>\<^verbatim>\<open>itertools.combinations(xs, r)\<close>: the sublists of length \<open>r\<close>, in the
  lexicographic order of their positions.\<close>

fun combinations :: "'a list \<Rightarrow> nat \<Rightarrow> 'a list list" where
  "combinations xs 0 = [[]]"
| "combinations [] (Suc r) = []"
| "combinations (x # xs) (Suc r) = map ((#) x) (combinations xs r) @ combinations xs (Suc r)"

text \<open>\<^verbatim>\<open>f(*self.lookup_pts(ps))\<close>: the looked-up points spread over the parameters of
  \<open>f\<close>.\<close>

definition lookup_spread :: "(point list \<Rightarrow> error + 'a) \<Rightarrow> string list \<Rightarrow> 'a act" where
  "lookup_spread unpack ps = bnd (lookup_pts ps) (\<lambda>Ps. lift (spread unpack Ps))"

text \<open>\<^verbatim>\<open>assertion_vals\<close>. Membership \<^verbatim>\<open>A in [C, D]\<close> of the \<open>cong\<close> branch is
  equality of points. The \<open>distLt\<close> branch calls the unbound identifier \<^verbatim>\<open>dist\<close>.\<close>

definition assertion_vals :: "string \<Rightarrow> string list \<Rightarrow> scalar list act" where
  "assertion_vals pred ps =
     (if pred = ''amidpOpp'' then
        bnd (lookup4 ps) (\<lambda>(M, B, C, A). ret [dist_s M (amidp_opp B C A)])
      else if pred = ''amidpSame'' then
        bnd (lookup4 ps) (\<lambda>(M, B, C, A). ret [dist_s M (amidp_same B C A)])
      else if pred = ''between'' then
        bnd (lookup_spread unpack3 ps) (\<lambda>(X, A, B). ret (between_gap X A B))
      else if pred = ''circumcenter'' then
        bnd (lookup4 ps) (\<lambda>(O', A, B, C).
        bnd (circles_append (O', dist_s O' A)) (\<lambda>_.
          ret [dist_s O' (circumcenter A B C)]))
      else if pred = ''coll'' then
        bnd (lookup_pts ps) (\<lambda>coll_ps.
          let diffs = map (\<lambda>t. coll_phi (t ! 0) (t ! 1) (t ! 2)) (combinations coll_ps 3)
          in bnd (for_each (\<lambda>i. segments_extend [(coll_ps ! i, coll_ps ! (i + 1))])
                    [0..<length coll_ps - 1]) (\<lambda>_.
             ret diffs))
      else if pred = ''cong'' then
        bnd (lookup4 ps) (\<lambda>(A, B, C, D).
        bnd (if A \<in> set [C, D] then circles_append (A, dist_s A B)
             else if B \<in> set [C, D] then circles_append (B, dist_s A B)
             else ret ()) (\<lambda>_.
          ret [cong_diff A B C D]))
      else if pred = ''contri'' then
        bnd (lookup6 ps) (\<lambda>(A, B, C, P, Q, R).
        bnd (segments_extend [(A, B), (B, C), (C, A), (P, Q), (Q, R), (R, P)]) (\<lambda>_.
          ret [eqangle6_diff A B C P Q R,
               eqangle6_diff B C A Q R P,
               eqangle6_diff C A B R P Q,
               cong_diff A B P Q,
               cong_diff A C P R,
               cong_diff B C Q R]))
      else if pred = ''cycl'' then
        bnd (lookup_pts ps) (\<lambda>cycl_ps.
          if \<not> length ps > 3 then raise AssertionError
          else
            let O' = circumcenter (cycl_ps ! 0) (cycl_ps ! 1) (cycl_ps ! 2);
                diffs = map (\<lambda>t. eqangle6_diff (t ! 0) (t ! 1) (t ! 3) (t ! 0) (t ! 2) (t ! 3))
                          (combinations cycl_ps 4)
            in bnd (circles_append (O', dist_s O' (cycl_ps ! 0))) (\<lambda>_. ret diffs))
      else if pred = ''distLt'' then
        bnd (lookup4 ps) (\<lambda>(X, Y, A, B). raise (NameError ''dist''))
      else if pred = ''distGt'' then
        bnd (lookup4 ps) (\<lambda>(X, Y, A, B).
          ret [max_s (const 0) (dist_s A B - dist_s X Y)])
      else if pred = ''eqangle'' then
        bnd (lookup_spread unpack8 ps) (\<lambda>(A, B1, B2, C, P, Q1, Q2, R).
          ret [eqangle8_diff A B1 B2 C P Q1 Q2 R])
      else if pred = ''eqoangle'' then
        bnd (lookup6 ps) (\<lambda>(A, B, C, P, Q, R). ret [angle A B C - angle P Q R])
      else if pred = ''eqratio'' then
        bnd (lookup_spread unpack8 ps) (\<lambda>(A, B, C, D, P, Q, R, S).
        bnd (lift (eqratio_diff A B C D P Q R S)) (\<lambda>v. ret [v]))
      else if pred = ''foot'' then
        bnd (lookup4 ps) (\<lambda>(F, X, A, B). ret [coll_phi F A B, perp_phi F X A B])
      else if pred = ''ibisector'' then
        bnd (lookup4 ps) (\<lambda>(X, B, A, C).
        bnd (segments_extend [(B, A), (A, X), (A, C)]) (\<lambda>_.
          ret [eqangle8_diff B A A X X A A C]))
      else if pred = ''incenter'' then
        bnd (lookup4 ps) (\<lambda>(I, A, B, C). ret [dist_s I (incenter A B C)])
      else if pred = ''insidePolygon'' then
        bnd (lookup_pts ps) (\<lambda>Ps.
          case Ps of [] \<Rightarrow> raise TypeError | X # rest \<Rightarrow> ret (in_poly_phis X rest))
      else if pred = ''interLL'' then
        bnd (lookup5 ps) (\<lambda>(X, A, B, C, D). ret [coll_phi X A B, coll_phi X C D])
      else if pred = ''isogonal'' then
        bnd (lookup5 ps) (\<lambda>(X, Y, A, B, C). ret [dist_s X (isogonal Y A B C)])
      else if pred = ''midp'' then
        bnd (lookup3 ps) (\<lambda>(M, A, B). ret [dist_s M (midp A B)])
      else if pred = ''onRay'' then
        bnd (lookup_spread unpack3 ps) (\<lambda>(A, B, C).
        bnd (lookup_spread unpack3 ps) (\<lambda>(X, A', B').
          ret ([coll_phi A B C] @ onray_gap X A' B')))
      else if pred = ''onSeg'' then
        bnd (lookup_spread unpack3 ps) (\<lambda>(A, B, C).
        bnd (lookup_spread unpack3 ps) (\<lambda>(X, A', B').
          ret ([coll_phi A B C] @ between_gap X A' B')))
      else if pred = ''oppSides'' then
        bnd (lookup4 ps) (\<lambda>(A, B, X, Y).
          ret [max_s (const 0) (side_score_prod A B X Y)])
      else if pred = ''orthocenter'' then
        bnd (lookup4 ps) (\<lambda>(H, A, B, C). ret [dist_s H (orthocenter A B C)])
      else if pred = ''perp'' then
        bnd (lookup_spread unpack4 ps) (\<lambda>(A, B, C, D). ret [perp_phi A B C D])
      else if pred = ''para'' then
        bnd (lookup_spread unpack4 ps) (\<lambda>(A, B, C, D). ret [para_phi A B C D])
      else if pred = ''reflectPL'' then
        bnd (lookup4 ps) (\<lambda>(X, Y, A, B). ret [perp_phi X Y A B, cong_diff A X A Y])
      else if pred = ''sameSide'' then
        bnd (lookup4 ps) (\<lambda>(A, B, X, Y).
          ret [max_s (const 0) (- side_score_prod A B X Y)])
      else if pred = ''simtri'' then
        bnd (lookup6 ps) (\<lambda>(A, B, C, P, Q, R).
        bnd (segments_extend [(A, B), (B, C), (C, A), (P, Q), (Q, R), (R, P)]) (\<lambda>_.
          ret [eqangle6_diff A B C P Q R, eqangle6_diff B C A Q R P,
               eqangle6_diff C A B R P Q]))
      else raise NotImplementedError)"

text \<open>The loop of \<^verbatim>\<open>add\<close>, \<^verbatim>\<open>addNDG\<close> and \<^verbatim>\<open>confirm\<close> over
  \<^verbatim>\<open>enumerate(vals)\<close>: a single residual is registered under the label itself, several
  under the label and their index.\<close>

definition register_vals :: "(string \<Rightarrow> scalar \<Rightarrow> unit act) \<Rightarrow> string \<Rightarrow> scalar list \<Rightarrow> unit act" where
  "register_vals reg a_str vals =
     for_each (\<lambda>(i, val).
         let loss_str = (if length vals = 1 then a_str else a_str @ ''_'' @ string_of_nat i)
         in reg loss_str val)
       (List.enumerate 0 vals)"

definition add :: "constraint \<Rightarrow> unit act" where
  "add cons =
     (case cons of Constraint pred ps negate \<Rightarrow>
        if negate then raise RuntimeError
        else
          bnd (assertion_vals pred ps) (\<lambda>vals.
            let a_str = pred @ ''_'' @ join_underscore ps in
            if length vals = 0 then raise ZeroDivisionError
            else
              let weight = 1 / real (length vals) in
              register_vals (\<lambda>key val. register_loss key val weight) a_str vals))"

definition addNDG :: "constraint \<Rightarrow> unit act" where
  "addNDG ndg_cons =
     (case ndg_cons of Constraint pred ps _ \<Rightarrow>
        bnd (assertion_vals pred ps) (\<lambda>vals.
          let a_str = ''not_'' @ pred @ ''_'' @ join_underscore ps in
          if length vals = 0 then raise ZeroDivisionError
          else
            let weight = 1 / real (length vals) in
            register_vals (\<lambda>key val. register_ndg key val weight) a_str vals))"

definition confirm :: "constraint \<Rightarrow> unit act" where
  "confirm goal_cons =
     (case goal_cons of Constraint pred ps negate \<Rightarrow>
        bnd (assertion_vals pred ps) (\<lambda>vals.
          let g_str0 = pred @ ''_'' @ join_underscore ps;
              g_str = (if negate then ''not_'' @ g_str0 else g_str0)
          in register_vals register_goal g_str vals))"

section \<open>The interpreter\<close>

fun process_instruction :: "backend \<Rightarrow> instruction \<Rightarrow> unit act" where
  "process_instruction bk (Sample s_method points s_args) = sample bk s_method points s_args"
| "process_instruction bk (Compute p c_method c_args) = compute p c_method c_args"
| "process_instruction bk (Parameterize p p_method p_args) = parameterize bk p p_method p_args"
| "process_instruction bk (Assert cons) = add cons"
| "process_instruction bk (AssertNDG cons) = addNDG cons"
| "process_instruction bk (Confirm cons) = confirm cons"

definition preprocess :: "backend \<Rightarrow> unit act" where
  "preprocess bk st = for_each (process_instruction bk) (instructions st) st"


section \<open>Notions used to state the properties\<close>

text \<open>The collinearity residual of three points with real coordinates: twice the signed
  area of the triangle.\<close>

definition tri_phi :: "real \<Rightarrow> real \<Rightarrow> real \<Rightarrow> real \<Rightarrow> real \<Rightarrow> real \<Rightarrow> real" where
  "tri_phi a1 a2 b1 b2 c1 c2 = a1 * (b2 - c2) + b1 * (c2 - a2) + c1 * (a2 - b2)"

text \<open>A state with three registered points and a backend whose free variables are all
  zero, for the concrete instances of the properties.\<close>

definition st_one :: optimizer where
  "st_one = (Optimizer_init [])\<lparr>name2pt :=
     [(''A'', Point (Val 0) (Val 0)), (''B'', Point (Val 1) (Val 0)), (''X'', Point (Val 3) (Val 0))]\<rparr>"

definition bk_zero :: backend where
  "bk_zero = \<lparr>mkvar = (\<lambda>_ _ _. Val 0), simplify = (\<lambda>P _. P)\<rparr>"

text \<open>The three vertices of the equilateral sample.\<close>

definition equi_A :: point where
  "equi_A = Point (Val 0) (Val (2 * sqrt 3))"

definition equi_B :: point where
  "equi_B = Point (Val (- 2)) (Val 0)"

definition equi_C :: point where
  "equi_C = Point (Val 2) (Val 0)"

text \<open>Notions for the collinearity predicate: a point with real coordinates, three
  pairwise distinct points on a common line, a point off the line through two others, a
  residual that is a number other than zero, the points registered under a list of names,
  and one collinearity residual for each 3-combination of a list of points.\<close>

definition real_pt :: "point \<Rightarrow> bool" where
  "real_pt P = (pt_x P \<noteq> NaN \<and> pt_y P \<noteq> NaN)"

definition on_common_line :: "point \<Rightarrow> point \<Rightarrow> point \<Rightarrow> bool" where
  "on_common_line P Q R =
     (real_pt P \<and> real_pt Q \<and> real_pt R \<and> distinct [P, Q, R] \<and> coll_phi P Q R = Val 0)"

definition off_line :: "point \<Rightarrow> point \<Rightarrow> point \<Rightarrow> bool" where
  "off_line X P Q = (real_pt X \<and> coll_phi X P Q \<noteq> Val 0)"

definition nonzero :: "scalar \<Rightarrow> bool" where
  "nonzero v = (v \<noteq> Val 0 \<and> v \<noteq> NaN)"

definition registered_pts :: "optimizer \<Rightarrow> string list \<Rightarrow> point list" where
  "registered_pts st ps = map (\<lambda>p. the (map_of (name2pt st) p)) ps"

definition triple_residuals :: "point list \<Rightarrow> scalar list" where
  "triple_residuals Ps = map (\<lambda>t. coll_phi (t ! 0) (t ! 1) (t ! 2)) (combinations Ps 3)"

definition st_four :: optimizer where
  "st_four = (Optimizer_init [])\<lparr>name2pt :=
     [(''A'', Point (Val 0) (Val 0)), (''B'', Point (Val 1) (Val 1)),
      (''C'', Point (Val 2) (Val 2)), (''D'', Point (Val 0) (Val 1))]\<rparr>"

text \<open>The distance from the point \<open>(o1, o2)\<close> to the line through \<open>(a1, a2)\<close> and
  \<open>(b1, b2)\<close>, and the foot of the perpendicular from that point to the line.\<close>

definition line_dist :: "real \<Rightarrow> real \<Rightarrow> real \<Rightarrow> real \<Rightarrow> real \<Rightarrow> real \<Rightarrow> real" where
  "line_dist o1 o2 a1 a2 b1 b2 =
     \<bar>tri_phi o1 o2 a1 a2 b1 b2\<bar> / sqrt ((a1 - b1)^2 + (a2 - b2)^2)"

definition foot_x :: "real \<Rightarrow> real \<Rightarrow> real \<Rightarrow> real \<Rightarrow> real \<Rightarrow> real \<Rightarrow> real" where
  "foot_x o1 o2 a1 a2 b1 b2 =
     o1 - tri_phi o1 o2 a1 a2 b1 b2 / ((a1 - b1)^2 + (a2 - b2)^2) * (a2 - b2)"

definition foot_y :: "real \<Rightarrow> real \<Rightarrow> real \<Rightarrow> real \<Rightarrow> real \<Rightarrow> real \<Rightarrow> real" where
  "foot_y o1 o2 a1 a2 b1 b2 =
     o2 + tri_phi o1 o2 a1 a2 b1 b2 / ((a1 - b1)^2 + (a2 - b2)^2) * (a1 - b1)"

text \<open>The radicand of the line-circle quadratic of \<open>inter_pp_c\<close>, for the line through
  \<open>(xp, yp)\<close> and \<open>(xq, yq)\<close> and the circle with centre \<open>(xo, yo)\<close> and radius \<open>r\<close>.\<close>

definition lc_radicand :: "real \<Rightarrow> real \<Rightarrow> real \<Rightarrow> real \<Rightarrow> real \<Rightarrow> real \<Rightarrow> real \<Rightarrow> real" where
  "lc_radicand xo yo r xp yp xq yq =
     r^2 * ((xp - xq)^2 + (yp - yq)^2) - ((xq - xo) * (yp - yo) - (xp - xo) * (yq - yo))^2"

section \<open>Properties of the kernel: scalars and the circumcenter\<close>

lemma Val_power2: "Val a ^ 2 = Val (a ^ 2)"
  by (simp add: numeral_2_eq_2 one_scalar_def power2_eq_square)

lemma sqdist_Val:
  "sqdist (Point (Val a1) (Val a2)) (Point (Val b1) (Val b2)) = Val ((a1 - b1)^2 + (a2 - b2)^2)"
  by (simp add: sqdist_def Val_power2)

lemma dist_s_Val:
  "dist_s (Point (Val a1) (Val a2)) (Point (Val b1) (Val b2)) = Val (sqrt ((a1 - b1)^2 + (a2 - b2)^2))"
  by (simp add: dist_s_def sqdist_Val not_less)

lemma coll_phi_Val:
  "coll_phi (Point (Val a1) (Val a2)) (Point (Val b1) (Val b2)) (Point (Val c1) (Val c2))
     = Val (a1 * (b2 - c2) + b1 * (c2 - a2) + c1 * (a2 - b2))"
  by (simp add: coll_phi_def)

lemma sq_pos_of_phi:
  assumes "tri_phi a1 a2 b1 b2 c1 c2 \<noteq> 0"
  shows "(b1 - c1)^2 + (b2 - c2)^2 > 0" "(c1 - a1)^2 + (c2 - a2)^2 > 0" "(a1 - b1)^2 + (a2 - b2)^2 > 0"
proof -
  have "\<not> (b1 = c1 \<and> b2 = c2)" "\<not> (c1 = a1 \<and> c2 = a2)" "\<not> (a1 = b1 \<and> a2 = b2)"
    using assms by (auto simp: tri_phi_def algebra_simps)
  then show "(b1 - c1)^2 + (b2 - c2)^2 > 0" "(c1 - a1)^2 + (c2 - a2)^2 > 0" "(a1 - b1)^2 + (a2 - b2)^2 > 0"
    by (auto simp: sum_power2_gt_zero_iff)
qed

lemma conway_den:
  fixes a1 a2 b1 b2 c1 c2 :: real
  defines "sa \<equiv> (b1 - c1)^2 + (b2 - c2)^2"
      and "sb \<equiv> (c1 - a1)^2 + (c2 - a2)^2"
      and "sc \<equiv> (a1 - b1)^2 + (a2 - b2)^2"
  shows "sa * ((sb + sc - sa) / 2) + sb * ((sc + sa - sb) / 2) + sc * ((sa + sb - sc) / 2)
       = 2 * (tri_phi a1 a2 b1 b2 c1 c2)^2"
  unfolding sa_def sb_def sc_def tri_phi_def by algebra


lemma circumcenter_Val:
  fixes a1 a2 b1 b2 c1 c2 :: real
  defines "sa \<equiv> (b1 - c1)^2 + (b2 - c2)^2"
      and "sb \<equiv> (c1 - a1)^2 + (c2 - a2)^2"
      and "sc \<equiv> (a1 - b1)^2 + (a2 - b2)^2"
  defines "wa \<equiv> sa * ((sb + sc - sa) / 2)"
      and "wb \<equiv> sb * ((sc + sa - sb) / 2)"
      and "wc \<equiv> sc * ((sa + sb - sc) / 2)"
  assumes nd: "tri_phi a1 a2 b1 b2 c1 c2 \<noteq> 0"
  shows "circumcenter (Point (Val a1) (Val a2)) (Point (Val b1) (Val b2)) (Point (Val c1) (Val c2))
     = Point (Val ((wa * a1 + wb * b1 + wc * c1) / (wa + wb + wc)))
             (Val ((wa * a2 + wb * b2 + wc * c2) / (wa + wb + wc)))"
proof -
  have pos: "sa > 0" "sb > 0" "sc > 0"
    using sq_pos_of_phi[OF nd] by (simp_all add: sa_def sb_def sc_def)
  have den: "wa + wb + wc \<noteq> 0"
    using conway_den[of b1 c1 b2 c2 a1 a2] nd
    by (simp add: wa_def wb_def wc_def sa_def sb_def sc_def)
  have r: "sqrt sa \<noteq> 0" "sqrt sb \<noteq> 0" "sqrt sc \<noteq> 0" using pos by simp_all
  have sq: "(sqrt sa)^2 = sa" "(sqrt sb)^2 = sb" "(sqrt sc)^2 = sc" using pos by simp_all
  have sl: "side_lengths (Point (Val a1) (Val a2)) (Point (Val b1) (Val b2)) (Point (Val c1) (Val c2))
      = (Val (sqrt sa), Val (sqrt sb), Val (sqrt sc))"
    by (simp add: side_lengths_def dist_s_Val sa_def sb_def sc_def)
  have cancel: "sqrt sa * (wa / sqrt sa) = wa" "sqrt sb * (wb / sqrt sb) = wb" "sqrt sc * (wc / sqrt sc) = wc"
    using r by simp_all
  show ?thesis
    unfolding circumcenter_def conway_vals_def barycentric_def trilinear_def sl
    using r den
    by (simp add: Val_power2 sq get_point_def Let_def cancel wa_def wb_def wc_def)
qed

lemma equidist_poly:
  fixes a1 a2 b1 b2 c1 c2 :: real
  defines "sa \<equiv> (b1 - c1)^2 + (b2 - c2)^2"
      and "sb \<equiv> (c1 - a1)^2 + (c2 - a2)^2"
      and "sc \<equiv> (a1 - b1)^2 + (a2 - b2)^2"
  defines "wa \<equiv> sa * ((sb + sc - sa) / 2)"
      and "wb \<equiv> sb * ((sc + sa - sb) / 2)"
      and "wc \<equiv> sc * ((sa + sb - sc) / 2)"
  shows "4 * (((wa * a1 + wb * b1 + wc * c1) - (wa + wb + wc) * a1)^2 + ((wa * a2 + wb * b2 + wc * c2) - (wa + wb + wc) * a2)^2)
       = sa * sb * sc * (2 * (wa + wb + wc))"
  unfolding wa_def wb_def wc_def sa_def sb_def sc_def by algebra

lemma coll_phi_defined:
  assumes "coll_phi A B C \<noteq> NaN"
  obtains a1 a2 b1 b2 c1 c2 where
    "A = Point (Val a1) (Val a2)" "B = Point (Val b1) (Val b2)" "C = Point (Val c1) (Val c2)"
proof -
  obtain ax ay bx by' cx cy where p: "A = Point ax ay" "B = Point bx by'" "C = Point cx cy"
    by (cases A, cases B, cases C) auto
  have "\<exists>a1 a2 b1 b2 c1 c2. ax = Val a1 \<and> ay = Val a2 \<and> bx = Val b1 \<and> by' = Val b2 \<and> cx = Val c1 \<and> cy = Val c2"
    using assms unfolding p coll_phi_def
    by (cases ax; cases ay; cases bx; cases by'; cases cx; cases cy) simp_all
  then show thesis using that p by blast
qed

lemma shift_quot:
  fixes d n1 n2 u v :: real
  assumes "d \<noteq> 0"
  shows "(n1 / d - u)^2 + (n2 / d - v)^2 = ((n1 - d * u)^2 + (n2 - d * v)^2) / d^2"
proof -
  have "n1 / d - u = (n1 - d * u) / d" "n2 / d - v = (n2 - d * v) / d"
    using assms by (simp_all add: field_simps)
  then show ?thesis by (simp add: power_divide add_divide_distrib)
qed

lemma quot_half:
  fixes X P d :: real
  assumes "d \<noteq> 0" and "4 * X = P * (2 * d)"
  shows "X / d^2 = P / (2 * d)"
proof -
  have X: "X = P * d / 2" using assms(2) by simp
  show ?thesis unfolding X using assms(1) by (simp add: power2_eq_square)
qed

lemma circum_sqdist:
  fixes a1 a2 b1 b2 c1 c2 :: real
  defines "sa \<equiv> (b1 - c1)^2 + (b2 - c2)^2"
      and "sb \<equiv> (c1 - a1)^2 + (c2 - a2)^2"
      and "sc \<equiv> (a1 - b1)^2 + (a2 - b2)^2"
  defines "wa \<equiv> sa * ((sb + sc - sa) / 2)"
      and "wb \<equiv> sb * ((sc + sa - sb) / 2)"
      and "wc \<equiv> sc * ((sa + sb - sc) / 2)"
  defines "o1 \<equiv> (wa * a1 + wb * b1 + wc * c1) / (wa + wb + wc)"
      and "o2 \<equiv> (wa * a2 + wb * b2 + wc * c2) / (wa + wb + wc)"
  assumes den: "wa + wb + wc \<noteq> 0"
  shows "(o1 - a1)^2 + (o2 - a2)^2 = sa * sb * sc / (2 * (wa + wb + wc))"
    and "(o1 - b1)^2 + (o2 - b2)^2 = sa * sb * sc / (2 * (wa + wb + wc))"
    and "(o1 - c1)^2 + (o2 - c2)^2 = sa * sb * sc / (2 * (wa + wb + wc))"
proof -
  let ?d = "wa + wb + wc"
  let ?n1 = "wa * a1 + wb * b1 + wc * c1"
  let ?n2 = "wa * a2 + wb * b2 + wc * c2"
  have pa: "4 * ((?n1 - ?d * a1)^2 + (?n2 - ?d * a2)^2) = sa * sb * sc * (2 * ?d)"
    unfolding wa_def wb_def wc_def sa_def sb_def sc_def by algebra
  have pb: "4 * ((?n1 - ?d * b1)^2 + (?n2 - ?d * b2)^2) = sa * sb * sc * (2 * ?d)"
    unfolding wa_def wb_def wc_def sa_def sb_def sc_def by algebra
  have pc: "4 * ((?n1 - ?d * c1)^2 + (?n2 - ?d * c2)^2) = sa * sb * sc * (2 * ?d)"
    unfolding wa_def wb_def wc_def sa_def sb_def sc_def by algebra
  have k: "(?n1 / ?d - u)^2 + (?n2 / ?d - v)^2 = ((?n1 - ?d * u)^2 + (?n2 - ?d * v)^2) / ?d^2" for u v
    by (rule shift_quot[OF den])
  have fin: "X / ?d^2 = sa * sb * sc / (2 * ?d)" if "4 * X = sa * sb * sc * (2 * ?d)" for X
    by (rule quot_half[OF den that])
  show "(o1 - a1)^2 + (o2 - a2)^2 = sa * sb * sc / (2 * ?d)"
    unfolding o1_def o2_def k by (rule fin[OF pa])
  show "(o1 - b1)^2 + (o2 - b2)^2 = sa * sb * sc / (2 * ?d)"
    unfolding o1_def o2_def k by (rule fin[OF pb])
  show "(o1 - c1)^2 + (o2 - c2)^2 = sa * sb * sc / (2 * ?d)"
    unfolding o1_def o2_def k by (rule fin[OF pc])
qed

text \<open>
  Claim C1. For every triangle \<open>A\<close>, \<open>B\<close>, \<open>C\<close> with positive area, that is, whose
  collinearity residual \<open>coll_phi A B C\<close> is a number other than zero, the point returned
  by \<open>circumcenter A B C\<close> has the same distance, a positive real number, to the three
  vertices, exactly.
\<close>

theorem circumcenter_equidistant:
  assumes "coll_phi A B C \<noteq> NaN" and "coll_phi A B C \<noteq> Val 0"
  shows "\<exists>r. 0 < r \<and> dist_s (circumcenter A B C) A = Val r
            \<and> dist_s (circumcenter A B C) B = Val r
            \<and> dist_s (circumcenter A B C) C = Val r"
proof -
  obtain a1 a2 b1 b2 c1 c2 where
    p: "A = Point (Val a1) (Val a2)" "B = Point (Val b1) (Val b2)" "C = Point (Val c1) (Val c2)"
    using coll_phi_defined[OF assms(1)] by blast
  have nd: "tri_phi a1 a2 b1 b2 c1 c2 \<noteq> 0"
    using assms(2) by (simp add: p coll_phi_Val tri_phi_def)
  define sa where "sa = (b1 - c1)^2 + (b2 - c2)^2"
  define sb where "sb = (c1 - a1)^2 + (c2 - a2)^2"
  define sc where "sc = (a1 - b1)^2 + (a2 - b2)^2"
  define wa where "wa = sa * ((sb + sc - sa) / 2)"
  define wb where "wb = sb * ((sc + sa - sb) / 2)"
  define wc where "wc = sc * ((sa + sb - sc) / 2)"
  define o1 where "o1 = (wa * a1 + wb * b1 + wc * c1) / (wa + wb + wc)"
  define o2 where "o2 = (wa * a2 + wb * b2 + wc * c2) / (wa + wb + wc)"
  define R where "R = sa * sb * sc / (2 * (wa + wb + wc))"
  have pos: "sa > 0" "sb > 0" "sc > 0"
    using sq_pos_of_phi[OF nd] by (simp_all add: sa_def sb_def sc_def)
  have deq: "wa + wb + wc = 2 * (tri_phi a1 a2 b1 b2 c1 c2)^2"
    using conway_den[of b1 c1 b2 c2 a1 a2]
    by (simp add: wa_def wb_def wc_def sa_def sb_def sc_def)
  have dpos: "wa + wb + wc > 0" using nd by (simp add: deq)
  have O: "circumcenter A B C = Point (Val o1) (Val o2)"
    unfolding p o1_def o2_def wa_def wb_def wc_def sa_def sb_def sc_def
    by (rule circumcenter_Val[OF nd])
  have Rpos: "R > 0" using pos dpos by (simp add: R_def)
  have d: "(o1 - a1)^2 + (o2 - a2)^2 = R" "(o1 - b1)^2 + (o2 - b2)^2 = R" "(o1 - c1)^2 + (o2 - c2)^2 = R"
    using dpos circum_sqdist[of b1 c1 b2 c2 a1 a2]
    by (simp_all add: R_def o1_def o2_def wa_def wb_def wc_def sa_def sb_def sc_def)
  have "dist_s (Point (Val o1) (Val o2)) A = Val (sqrt R)" "dist_s (Point (Val o1) (Val o2)) B = Val (sqrt R)"
       "dist_s (Point (Val o1) (Val o2)) C = Val (sqrt R)"
    by (simp_all add: p dist_s_Val d)
  then have "dist_s (circumcenter A B C) A = Val (sqrt R)" "dist_s (circumcenter A B C) B = Val (sqrt R)"
       "dist_s (circumcenter A B C) C = Val (sqrt R)"
    by (simp_all only: O)
  moreover have "0 < sqrt R" using Rpos by simp
  ultimately show ?thesis by blast
qed

theorem circumcenter_equidistant_witness:
  "coll_phi (Point (Val 0) (Val 0)) (Point (Val 4) (Val 0)) (Point (Val 0) (Val 3)) \<noteq> NaN
   \<and> coll_phi (Point (Val 0) (Val 0)) (Point (Val 4) (Val 0)) (Point (Val 0) (Val 3)) \<noteq> Val 0
   \<and> (\<exists>r. 0 < r
        \<and> dist_s (circumcenter (Point (Val 0) (Val 0)) (Point (Val 4) (Val 0)) (Point (Val 0) (Val 3)))
              (Point (Val 0) (Val 0)) = Val r
        \<and> dist_s (circumcenter (Point (Val 0) (Val 0)) (Point (Val 4) (Val 0)) (Point (Val 0) (Val 3)))
              (Point (Val 4) (Val 0)) = Val r
        \<and> dist_s (circumcenter (Point (Val 0) (Val 0)) (Point (Val 4) (Val 0)) (Point (Val 0) (Val 3)))
              (Point (Val 0) (Val 3)) = Val r)"
proof -
  have h1: "coll_phi (Point (Val 0) (Val 0)) (Point (Val 4) (Val 0)) (Point (Val 0) (Val 3)) \<noteq> NaN"
    by (simp add: coll_phi_Val)
  have h2: "coll_phi (Point (Val 0) (Val 0)) (Point (Val 4) (Val 0)) (Point (Val 0) (Val 3)) \<noteq> Val 0"
    by (simp add: coll_phi_Val)
  show ?thesis using h1 h2 circumcenter_equidistant[OF h1 h2] by blast
qed

section \<open>Properties of the interpreter\<close>

lemma bnd_simps:
  "bnd (ret v) f st = f v st"
  "bnd (raise e) f st = (Inl e, st)"
  "bnd (lift (Inr v)) f st = f v st"
  "bnd (lift (Inl e)) f st = (Inl e, st)"
  by (simp_all add: bnd_def ret_def raise_def lift_def)

lemma bnd_cong_val: "act st = (Inr v, st') \<Longrightarrow> bnd act f st = f v st'"
  by (simp add: bnd_def)

lemma bnd_cong_err: "act st = (Inl e, st') \<Longrightarrow> bnd act f st = (Inl e, st')"
  by (simp add: bnd_def)

text \<open>
  Claim C4, as amended. With the \<open>arbitrary\<close> policy \<open>process_rs\<close> returns its second
  candidate \<open>P2\<close>, whatever the arguments of the selector and the state, and leaves the
  state as it was. Passing the candidates in the other order returns the other candidate:
  the two calls agree exactly when the candidates are equal.
\<close>

theorem process_rs_arbitrary:
  "process_rs P1 P2 (RootSelect ''arbitrary'' vars) st = (Inr P2, st)
   \<and> (process_rs P1 P2 (RootSelect ''arbitrary'' vars) st
        = process_rs P2 P1 (RootSelect ''arbitrary'' vars) st) = (P1 = P2)"
  by (auto simp add: process_rs_def ret_def)

text \<open>
  The claim as stated fails for the candidates \<open>(0, 0)\<close> and \<open>(1, 0)\<close>: the two orders
  return two different points.
\<close>

theorem process_rs_arbitrary_order_counterexample:
  "process_rs (Point (Val 0) (Val 0)) (Point (Val 1) (Val 0)) (RootSelect ''arbitrary'' [])
       (Optimizer_init [])
     = (Inr (Point (Val 1) (Val 0)), Optimizer_init [])
   \<and> process_rs (Point (Val 1) (Val 0)) (Point (Val 0) (Val 0)) (RootSelect ''arbitrary'' [])
       (Optimizer_init [])
     = (Inr (Point (Val 0) (Val 0)), Optimizer_init [])
   \<and> Point (Val 1) (Val 0) \<noteq> Point (Val 0) (Val 0)"
  by (simp add: process_rs_def ret_def)

text \<open>
  Called with \<^verbatim>\<open>right=v\<close>, as the three failing branches of \<open>sample\<close> intend,
  \<open>sample_triangle\<close> registers the apex \<open>(x, sqrt (4 - x\<^sup>2))\<close> under the name \<open>v\<close> when \<open>v\<close>
  is the second or third name, and under the first name otherwise, and the base vertices
  \<open>(-2, 0)\<close> and \<open>(2, 0)\<close> under the other two names.
\<close>

lemma sample_triangle_right:
  assumes d: "distinct [nA, nB, nC]"
    and f: "set [nA, nB, nC] \<inter> fst ` set (name2pt st) = {}"
    and v: "v \<noteq> []"
    and x: "mkvar bk ''tri_x'' (- 1) (12 / 10) = Val x" "x^2 \<le> 4"
  shows "fst (sample_triangle bk [nA, nB, nC] None (Some v) False False st) = Inr ()"
    and "name2pt (snd (sample_triangle bk [nA, nB, nC] None (Some v) False False st))
           = name2pt st @
             (if v = nB then
                [(nA, Point (Val (- 2)) (Val 0)), (nB, Point (Val x) (Val (sqrt (4 - x^2)))),
                 (nC, Point (Val 2) (Val 0))]
              else if v = nC then
                [(nA, Point (Val 2) (Val 0)), (nB, Point (Val (- 2)) (Val 0)),
                 (nC, Point (Val x) (Val (sqrt (4 - x^2))))]
              else
                [(nA, Point (Val x) (Val (sqrt (4 - x^2)))), (nB, Point (Val (- 2)) (Val 0)),
                 (nC, Point (Val 2) (Val 0))])"
proof -
  have x': "mkvar bk ''tri_x'' (- 1) (6 / 5) = Val x" using x(1) by simp
  have A: "sqrt_s (Val 4 - Val x ^ 2) = Val (sqrt (4 - x^2))"
    using x(2) by (simp add: Val_power2)
  show "fst (sample_triangle bk [nA, nB, nC] None (Some v) False False st) = Inr ()"
    using d f v
    by (auto simp: sample_triangle_def bnd_def lift_def register_pt_def Let_def x' A
        segments_extend_def get_point_def const_def)
  show "name2pt (snd (sample_triangle bk [nA, nB, nC] None (Some v) False False st))
           = name2pt st @
             (if v = nB then
                [(nA, Point (Val (- 2)) (Val 0)), (nB, Point (Val x) (Val (sqrt (4 - x^2)))),
                 (nC, Point (Val 2) (Val 0))]
              else if v = nC then
                [(nA, Point (Val 2) (Val 0)), (nB, Point (Val (- 2)) (Val 0)),
                 (nC, Point (Val x) (Val (sqrt (4 - x^2))))]
              else
                [(nA, Point (Val x) (Val (sqrt (4 - x^2)))), (nB, Point (Val (- 2)) (Val 0)),
                 (nC, Point (Val 2) (Val 0))])"
    using d f v
    by (auto simp: sample_triangle_def bnd_def lift_def register_pt_def Let_def x' A
        segments_extend_def get_point_def const_def)
qed

text \<open>
  Claim C8. A \<open>Sample\<close> instruction with the method tag \<open>rightTri\<close>, \<open>isoTri\<close> or
  \<open>acuteIsoTri\<close> does not register three vertices: \<open>sample\<close> reads the unbound
  identifier \<^verbatim>\<open>args\<close> (the local variable is \<^verbatim>\<open>s_args\<close>) before \<open>sample_triangle\<close>
  is called, and the state is left as it was.
\<close>

theorem sample_args_unbound:
  "sample bk ''rightTri'' points s_args st = (Inl (NameError ''args''), st)
   \<and> sample bk ''isoTri'' points s_args st = (Inl (NameError ''args''), st)
   \<and> sample bk ''acuteIsoTri'' points s_args st = (Inl (NameError ''args''), st)"
  by (simp add: sample_def raise_def)

lemma lookup_pts_registered:
  "set ps \<subseteq> fst ` set (name2pt st) \<Longrightarrow>
   lookup_pts ps st = (Inr (map (\<lambda>p. the (map_of (name2pt st) p)) ps), st)"
proof (induction ps)
  case Nil
  then show ?case by simp
next
  case (Cons p ps)
  then have "p \<in> fst ` set (name2pt st)" by simp
  then obtain P where "map_of (name2pt st) p = Some P"
    by (metis domD dom_map_of_conv_image_fst)
  with Cons show ?case by simp
qed

lemma lookup_pts_cases:
  "(\<exists>e. lookup_pts ps st = (Inl e, st)) \<or> (\<exists>Ps. lookup_pts ps st = (Inr Ps, st) \<and> length Ps = length ps)"
  by (induction ps) (auto split: option.splits)

lemma lookup_then_cases:
  "(\<exists>e. bnd (lookup_pts ps) (\<lambda>Ps. lift (u Ps)) st = (Inl e, st))
   \<or> (\<exists>v. bnd (lookup_pts ps) (\<lambda>Ps. lift (u Ps)) st = (Inr v, st))"
proof -
  consider e where "lookup_pts ps st = (Inl e, st)" | Ps where "lookup_pts ps st = (Inr Ps, st)"
    using lookup_pts_cases[of ps st] by blast
  then show ?thesis
  proof cases
    case 1
    then show ?thesis by (simp add: bnd_def)
  next
    case 2
    then show ?thesis by (cases "u Ps") (simp_all add: bnd_def lift_def)
  qed
qed

lemma lookup_spread_fail_or:
  "(\<exists>e. lookup_spread unpack ps st = (Inl e, st)) \<or> (\<exists>v. lookup_spread unpack ps st = (Inr v, st))"
  unfolding lookup_spread_def by (rule lookup_then_cases)

lemma unpack8_length: "length xs = 8 \<Longrightarrow> \<exists>a b c d e f g h. unpack8 xs = Inr (a, b, c, d, e, f, g, h)"
  by (cases xs rule: unpack8.cases) auto

lemma unpack3_length: "length xs = 3 \<Longrightarrow> \<exists>a b c. unpack3 xs = Inr (a, b, c)"
  by (cases xs rule: unpack3.cases) auto

lemma unpack2_length: "length xs = 2 \<Longrightarrow> \<exists>a b. unpack2 xs = Inr (a, b)"
  by (cases xs rule: unpack2.cases) auto

lemma lookup2_cases:
  "(\<exists>e. lookup2 ps st = (Inl e, st)) \<or> (\<exists>v. lookup2 ps st = (Inr v, st))"
  unfolding lookup2_def by (rule lookup_then_cases)

lemma lookup3_cases:
  "(\<exists>e. lookup3 ps st = (Inl e, st)) \<or> (\<exists>v. lookup3 ps st = (Inr v, st))"
  unfolding lookup3_def by (rule lookup_then_cases)

lemma assertion_vals_eqratio:
  "assertion_vals ''eqratio'' ps st =
     bnd (lookup_spread unpack8 ps) (\<lambda>(A, B, C, D, P, Q, R, S).
        bnd (lift (eqratio_diff A B C D P Q R S)) (\<lambda>v. ret [v])) st"
  by (simp add: assertion_vals_def)

lemma circ2nf_diam:
  "circ2nf (FuncInfo ''diam'' qs) st =
     bnd (lookup2 qs) (\<lambda>(B, C). let O' = midp B C in raise (NameError ''dist'')) st"
  by (simp add: circ2nf_def)

text \<open>
  Claim C9. \<open>eqratio_diff\<close> and the \<open>diam\<close> branch of \<open>circ2nf\<close> read the unbound
  identifier \<^verbatim>\<open>dist\<close>. For every input of the interpreter's contract, that is, point
  names that are all registered, eight of them for \<open>eqratio\<close> and two for \<open>diam\<close>,
  evaluating the \<open>eqratio\<close> predicate through \<open>assertion_vals\<close> and converting a \<open>diam\<close>
  circle through \<open>circ2nf\<close> each fail with the unbound-identifier error and leave the
  state as it was. Neither returns a value on any input at all.
\<close>

theorem eqratio_diam_unbound_dist:
  "eqratio_diff A B C D P Q R S = Inl (NameError ''dist'')
   \<and> (\<exists>e. assertion_vals ''eqratio'' ps st = (Inl e, st))
   \<and> (\<exists>e. circ2nf (FuncInfo ''diam'' qs) st = (Inl e, st))
   \<and> (set ps \<subseteq> fst ` set (name2pt st) \<and> length ps = 8 \<longrightarrow>
        assertion_vals ''eqratio'' ps st = (Inl (NameError ''dist''), st))
   \<and> (set qs \<subseteq> fst ` set (name2pt st) \<and> length qs = 2 \<longrightarrow>
        circ2nf (FuncInfo ''diam'' qs) st = (Inl (NameError ''dist''), st))"
proof (intro conjI impI)
  show "eqratio_diff A B C D P Q R S = Inl (NameError ''dist'')"
    by (simp add: eqratio_diff_def)
  show "\<exists>e. assertion_vals ''eqratio'' ps st = (Inl e, st)"
    using lookup_spread_fail_or[of unpack8 ps st]
    by (auto simp: assertion_vals_eqratio bnd_def lift_def eqratio_diff_def)
  show "\<exists>e. circ2nf (FuncInfo ''diam'' qs) st = (Inl e, st)"
    using lookup2_cases[of qs st]
    by (auto simp: circ2nf_diam bnd_def raise_def Let_def)
next
  assume h: "set ps \<subseteq> fst ` set (name2pt st) \<and> length ps = 8"
  let ?Ps = "map (\<lambda>p. the (map_of (name2pt st) p)) ps"
  have l: "lookup_pts ps st = (Inr ?Ps, st)" using h lookup_pts_registered by blast
  obtain a b c d e f g k where u: "unpack8 ?Ps = Inr (a, b, c, d, e, f, g, k)"
    using unpack8_length[of ?Ps] h by auto
  show "assertion_vals ''eqratio'' ps st = (Inl (NameError ''dist''), st)"
    by (simp add: assertion_vals_eqratio lookup_spread_def bnd_def l u lift_def spread_def
        eqratio_diff_def)
next
  assume h: "set qs \<subseteq> fst ` set (name2pt st) \<and> length qs = 2"
  let ?Ps = "map (\<lambda>p. the (map_of (name2pt st) p)) qs"
  have l: "lookup_pts qs st = (Inr ?Ps, st)" using h lookup_pts_registered by blast
  obtain a b where u: "unpack2 ?Ps = Inr (a, b)"
    using unpack2_length[of ?Ps] h by auto
  show "circ2nf (FuncInfo ''diam'' qs) st = (Inl (NameError ''dist''), st)"
    by (simp add: circ2nf_diam lookup2_def bnd_def l u lift_def raise_def Let_def)
qed

theorem eqratio_diam_unbound_dist_witness:
  "(set [''A'', ''B'', ''A'', ''B'', ''A'', ''B'', ''A'', ''B''] \<subseteq> fst ` set (name2pt st_one)
     \<and> length [''A'', ''B'', ''A'', ''B'', ''A'', ''B'', ''A'', ''B''] = 8)
   \<and> assertion_vals ''eqratio'' [''A'', ''B'', ''A'', ''B'', ''A'', ''B'', ''A'', ''B''] st_one
        = (Inl (NameError ''dist''), st_one)
   \<and> (set [''A'', ''B''] \<subseteq> fst ` set (name2pt st_one) \<and> length [''A'', ''B''] = 2)
   \<and> circ2nf (FuncInfo ''diam'' [''A'', ''B'']) st_one = (Inl (NameError ''dist''), st_one)"
proof -
  have h1: "set [''A'', ''B'', ''A'', ''B'', ''A'', ''B'', ''A'', ''B''] \<subseteq> fst ` set (name2pt st_one)
     \<and> length [''A'', ''B'', ''A'', ''B'', ''A'', ''B'', ''A'', ''B''] = 8"
    by (simp add: st_one_def)
  have h2: "set [''A'', ''B''] \<subseteq> fst ` set (name2pt st_one) \<and> length [''A'', ''B''] = 2"
    by (simp add: st_one_def)
  show ?thesis
    using h1 h2 eqratio_diam_unbound_dist[of undefined undefined undefined undefined undefined undefined undefined undefined "[''A'', ''B'', ''A'', ''B'', ''A'', ''B'', ''A'', ''B'']" st_one "[''A'', ''B'']"]
    by blast
qed

lemma compute_harmonic:
  "compute y ''harmonicLConj'' c_args st =
     bnd (lift (arg_index c_args 1)) (\<lambda>a1. compute_harmonic_l_conj y a1) st"
  by (simp add: compute_def)

lemma compute_harmonic_l_conj_fails:
  "\<exists>e. compute_harmonic_l_conj y a st = (Inl e, st)"
proof (cases "names_of a")
  case (Inl e)
  then show ?thesis by (simp add: compute_harmonic_l_conj_def bnd_def lift_def)
next
  case (Inr ps)
  then show ?thesis
    using lookup3_cases[of ps st]
    by (auto simp: compute_harmonic_l_conj_def bnd_def lift_def harmonic_l_conj_def)
qed

text \<open>
  Claim C10. \<open>harmonic_l_conj\<close> reads the unbound identifier \<^verbatim>\<open>const\<close> for every
  \<open>X\<close>, \<open>A\<close>, \<open>B\<close>. So every \<open>Compute\<close> instruction with the method tag
  \<open>harmonicLConj\<close> whose argument is a list of three registered point names fails with
  the unbound-identifier error before a point is registered, and leaves the whole state
  (the name registry and the segments included) as it was. No such instruction returns
  normally, whatever its arguments.
\<close>

theorem harmonic_l_conj_unbound_const:
  "harmonic_l_conj X A B = Inl (NameError ''const'')
   \<and> (\<exists>e. compute y ''harmonicLConj'' c_args st = (Inl e, st))
   \<and> (set ps \<subseteq> fst ` set (name2pt st) \<and> length ps = 3 \<longrightarrow>
        compute y ''harmonicLConj'' (APoints ps # rest) st = (Inl (NameError ''const''), st))"
proof (intro conjI impI)
  show "harmonic_l_conj X A B = Inl (NameError ''const'')"
    by (simp add: harmonic_l_conj_def)
  show "\<exists>e. compute y ''harmonicLConj'' c_args st = (Inl e, st)"
  proof (cases "arg_index c_args 1")
    case (Inl e)
    then show ?thesis by (simp add: compute_harmonic bnd_def lift_def)
  next
    case (Inr a)
    then show ?thesis
      using compute_harmonic_l_conj_fails[of y a st]
      by (simp add: compute_harmonic bnd_def lift_def)
  qed
next
  assume h: "set ps \<subseteq> fst ` set (name2pt st) \<and> length ps = 3"
  let ?Ps = "map (\<lambda>p. the (map_of (name2pt st) p)) ps"
  have l: "lookup_pts ps st = (Inr ?Ps, st)" using h lookup_pts_registered by blast
  obtain a b c where u: "unpack3 ?Ps = Inr (a, b, c)"
    using unpack3_length[of ?Ps] h by auto
  show "compute y ''harmonicLConj'' (APoints ps # rest) st = (Inl (NameError ''const''), st)"
    by (simp add: compute_harmonic compute_harmonic_l_conj_def lookup3_def bnd_def l u lift_def
        harmonic_l_conj_def)
qed

theorem harmonic_l_conj_unbound_const_witness:
  "(set [''X'', ''A'', ''B''] \<subseteq> fst ` set (name2pt st_one) \<and> length [''X'', ''A'', ''B''] = 3)
   \<and> compute ''Y'' ''harmonicLConj'' [APoints [''X'', ''A'', ''B'']] st_one
        = (Inl (NameError ''const''), st_one)"
proof -
  have h: "set [''X'', ''A'', ''B''] \<subseteq> fst ` set (name2pt st_one) \<and> length [''X'', ''A'', ''B''] = 3"
    by (simp add: st_one_def)
  show ?thesis
    using h harmonic_l_conj_unbound_const[of undefined undefined undefined "''Y''" "[]" st_one "[''X'', ''A'', ''B'']" "[]"]
    by blast
qed

lemma equi_dists:
  "dist_s equi_A equi_B = Val 4" "dist_s equi_B equi_C = Val 4" "dist_s equi_C equi_A = Val 4"
proof -
  have s: "sqrt 16 = 4" using real_sqrt_abs[of 4] by simp
  show "dist_s equi_A equi_B = Val 4" "dist_s equi_B equi_C = Val 4" "dist_s equi_C equi_A = Val 4"
    by (simp_all add: equi_A_def equi_B_def equi_C_def dist_s_Val power2_eq_square s)
qed

lemma equi_angle: "angle equi_A equi_B equi_C = Val (pi / 3)"
proof -
  have "arccos (1 / 2) = pi / 3"
    using arccos_cos[of "pi / 3"] by (simp add: cos_60)
  then show ?thesis
    by (simp add: angle_def side_lengths_def equi_dists Val_power2)
qed

text \<open>
  Claim C7. A \<open>Sample\<close> instruction with the method tag \<open>equiTri\<close> and three distinct
  names that are not registered yet registers the apex \<open>(0, 2 * sqrt 3)\<close> under the first
  name and the base vertices \<open>(-2, 0)\<close> and \<open>(2, 0)\<close> under the other two, reads no free
  variable and registers no loss. The three sides have length \<open>4\<close> exactly and
  \<open>angle A B C\<close> is \<open>pi / 3\<close>.
\<close>

theorem sample_equiTri:
  assumes "distinct [nA, nB, nC]"
      and "set [nA, nB, nC] \<inter> fst ` set (name2pt st) = {}"
  shows "sample bk ''equiTri'' [nA, nB, nC] s_args st
           = (Inr (), st\<lparr>name2pt := name2pt st @ [(nA, equi_A), (nB, equi_B), (nC, equi_C)],
                          segments := segments st @ [(equi_A, equi_B), (equi_B, equi_C), (equi_C, equi_A)]\<rparr>)
         \<and> equi_A = Point (Val 0) (Val (2 * sqrt 3))
         \<and> equi_B = Point (Val (- 2)) (Val 0)
         \<and> equi_C = Point (Val 2) (Val 0)
         \<and> dist_s equi_A equi_B = Val 4 \<and> dist_s equi_B equi_C = Val 4 \<and> dist_s equi_C equi_A = Val 4
         \<and> angle equi_A equi_B equi_C = Val (pi / 3)"
proof -
  have "sample bk ''equiTri'' [nA, nB, nC] s_args st
           = (Inr (), st\<lparr>name2pt := name2pt st @ [(nA, equi_A), (nB, equi_B), (nC, equi_C)],
                          segments := segments st @ [(equi_A, equi_B), (equi_B, equi_C), (equi_C, equi_A)]\<rparr>)"
    using assms
    by (auto simp: sample_def sample_triangle_def bnd_def lift_def register_pt_def Let_def
        segments_extend_def get_point_def const_def equi_A_def equi_B_def equi_C_def)
  then show ?thesis
    by (simp add: equi_dists equi_angle) (simp add: equi_A_def equi_B_def equi_C_def)
qed


theorem sample_equiTri_witness:
  "distinct [''A'', ''B'', ''C'']
   \<and> set [''A'', ''B'', ''C''] \<inter> fst ` set (name2pt (Optimizer_init [])) = {}
   \<and> sample bk_zero ''equiTri'' [''A'', ''B'', ''C''] [] (Optimizer_init [])
        = (Inr (), (Optimizer_init [])\<lparr>name2pt := name2pt (Optimizer_init []) @
                [(''A'', equi_A), (''B'', equi_B), (''C'', equi_C)],
              segments := segments (Optimizer_init []) @
                [(equi_A, equi_B), (equi_B, equi_C), (equi_C, equi_A)]\<rparr>)
   \<and> dist_s equi_A equi_B = Val 4 \<and> dist_s equi_B equi_C = Val 4 \<and> dist_s equi_C equi_A = Val 4
   \<and> angle equi_A equi_B equi_C = Val (pi / 3)"
proof -
  have h1: "distinct [''A'', ''B'', ''C'']" by simp
  have h2: "set [''A'', ''B'', ''C''] \<inter> fst ` set (name2pt (Optimizer_init [])) = {}"
    by (simp add: Optimizer_init_def)
  show ?thesis
    using h1 h2 sample_equiTri[OF h1 h2, of bk_zero "[]"] by blast
qed

section \<open>Properties of the collinearity predicate\<close>

lemma length_combinations: "length (combinations xs r) = length xs choose r"
  by (induction xs r rule: combinations.induct) simp_all

lemma for_each_segments:
  "for_each (\<lambda>i. segments_extend [f i]) xs st = (Inr (), st\<lparr>segments := segments st @ map f xs\<rparr>)"
  by (induction xs arbitrary: st) (simp_all add: ret_def bnd_def segments_extend_def)

lemma assertion_vals_coll:
  "assertion_vals ''coll'' ps st =
     bnd (lookup_pts ps) (\<lambda>coll_ps.
          let diffs = map (\<lambda>t. coll_phi (t ! 0) (t ! 1) (t ! 2)) (combinations coll_ps 3)
          in bnd (for_each (\<lambda>i. segments_extend [(coll_ps ! i, coll_ps ! (i + 1))])
                    [0..<length coll_ps - 1]) (\<lambda>_.
             ret diffs)) st"
  by (simp add: assertion_vals_def)

lemma tri_phi_line1:
  assumes "tri_phi p1 p2 q1 q2 r1 r2 = 0" and "tri_phi x1 x2 p1 p2 r1 r2 = 0"
  shows "tri_phi x1 x2 p1 p2 q1 q2 * (r1 - p1) = 0" "tri_phi x1 x2 p1 p2 q1 q2 * (r2 - p2) = 0"
  using assms unfolding tri_phi_def by algebra+

lemma tri_phi_line2:
  assumes "tri_phi p1 p2 q1 q2 r1 r2 = 0" and "tri_phi x1 x2 q1 q2 r1 r2 = 0"
  shows "tri_phi x1 x2 p1 p2 q1 q2 * (r1 - q1) = 0" "tri_phi x1 x2 p1 p2 q1 q2 * (r2 - q2) = 0"
  using assms unfolding tri_phi_def by algebra+

lemma off_line_all:
  assumes col: "tri_phi p1 p2 q1 q2 r1 r2 = 0"
    and dPR: "\<not> (p1 = r1 \<and> p2 = r2)" and dQR: "\<not> (q1 = r1 \<and> q2 = r2)"
    and off: "tri_phi x1 x2 p1 p2 q1 q2 \<noteq> 0"
  shows "tri_phi x1 x2 p1 p2 r1 r2 \<noteq> 0" "tri_phi x1 x2 q1 q2 r1 r2 \<noteq> 0"
proof -
  show "tri_phi x1 x2 p1 p2 r1 r2 \<noteq> 0"
  proof
    assume "tri_phi x1 x2 p1 p2 r1 r2 = 0"
    from tri_phi_line1[OF col this] off have "r1 - p1 = 0" "r2 - p2 = 0" by simp_all
    with dPR show False by simp
  qed
  show "tri_phi x1 x2 q1 q2 r1 r2 \<noteq> 0"
  proof
    assume "tri_phi x1 x2 q1 q2 r1 r2 = 0"
    from tri_phi_line2[OF col this] off have "r1 - q1 = 0" "r2 - q2 = 0" by simp_all
    with dQR show False by simp
  qed
qed


lemma real_ptE:
  assumes "real_pt P"
  obtains u v where "P = Point (Val u) (Val v)"
  using assms by (cases P; cases "pt_x P"; cases "pt_y P") (auto simp: real_pt_def)

lemma coll_phi_real:
  "coll_phi (Point (Val a1) (Val a2)) (Point (Val b1) (Val b2)) (Point (Val c1) (Val c2))
     = Val (tri_phi a1 a2 b1 b2 c1 c2)"
  by (simp add: coll_phi_def tri_phi_def)

lemma tri_phi_perm:
  "tri_phi b1 b2 a1 a2 c1 c2 = - tri_phi a1 a2 b1 b2 c1 c2"
  "tri_phi b1 b2 c1 c2 a1 a2 = tri_phi a1 a2 b1 b2 c1 c2"
  "tri_phi a1 a2 c1 c2 b1 b2 = - tri_phi a1 a2 b1 b2 c1 c2"
  by (simp_all add: tri_phi_def algebra_simps)

lemma nonzero_perm:
  assumes "nonzero (coll_phi A B C)"
  shows "nonzero (coll_phi B A C)" "nonzero (coll_phi B C A)" "nonzero (coll_phi A C B)"
    "nonzero (coll_phi C A B)" "nonzero (coll_phi C B A)"
proof -
  have "coll_phi A B C \<noteq> NaN" using assms by (simp add: nonzero_def)
  then obtain a1 a2 b1 b2 c1 c2 where
    p: "A = Point (Val a1) (Val a2)" "B = Point (Val b1) (Val b2)" "C = Point (Val c1) (Val c2)"
    by (rule coll_phi_defined)
  have nz: "tri_phi a1 a2 b1 b2 c1 c2 \<noteq> 0"
    using assms by (simp add: nonzero_def p coll_phi_real)
  have "tri_phi b1 b2 a1 a2 c1 c2 \<noteq> 0" "tri_phi b1 b2 c1 c2 a1 a2 \<noteq> 0" "tri_phi a1 a2 c1 c2 b1 b2 \<noteq> 0"
    "tri_phi c1 c2 a1 a2 b1 b2 \<noteq> 0" "tri_phi c1 c2 b1 b2 a1 a2 \<noteq> 0"
    using nz by (simp_all add: tri_phi_def algebra_simps)
  then show "nonzero (coll_phi B A C)" "nonzero (coll_phi B C A)" "nonzero (coll_phi A C B)"
    "nonzero (coll_phi C A B)" "nonzero (coll_phi C B A)"
    by (simp_all add: nonzero_def p coll_phi_real)
qed

lemma off_line_pairs:
  assumes on: "on_common_line P Q R" and off: "off_line X P Q"
  shows "nonzero (coll_phi X P Q)" "nonzero (coll_phi X P R)" "nonzero (coll_phi X Q R)"
    and "X \<noteq> P" "X \<noteq> Q" "X \<noteq> R"
proof -
  obtain p1 p2 where P: "P = Point (Val p1) (Val p2)" using on real_ptE on_common_line_def by metis
  obtain q1 q2 where Q: "Q = Point (Val q1) (Val q2)" using on real_ptE on_common_line_def by metis
  obtain r1 r2 where R: "R = Point (Val r1) (Val r2)" using on real_ptE on_common_line_def by metis
  obtain x1 x2 where X: "X = Point (Val x1) (Val x2)" using off real_ptE off_line_def by metis
  have col: "tri_phi p1 p2 q1 q2 r1 r2 = 0"
    using on by (simp add: on_common_line_def P Q R coll_phi_real)
  have d: "\<not> (p1 = r1 \<and> p2 = r2)" "\<not> (q1 = r1 \<and> q2 = r2)"
    using on by (auto simp: on_common_line_def P Q R)
  have o: "tri_phi x1 x2 p1 p2 q1 q2 \<noteq> 0"
    using off by (simp add: off_line_def X P Q coll_phi_real)
  note a = off_line_all[OF col d o]
  show "nonzero (coll_phi X P Q)" "nonzero (coll_phi X P R)" "nonzero (coll_phi X Q R)"
    using o a by (simp_all add: nonzero_def X P Q R coll_phi_real)
  show "X \<noteq> P"
    using o by (auto simp: X P tri_phi_def algebra_simps)
  show "X \<noteq> Q"
    using o by (auto simp: X Q tri_phi_def algebra_simps)
  show "X \<noteq> R"
    using a(1) by (auto simp: X R tri_phi_def algebra_simps)
qed

lemma all_less_4: "(\<forall>j<4. Pr j) = (Pr 0 \<and> Pr 1 \<and> Pr 2 \<and> Pr (3::nat))"
proof -
  have "j < 4 \<longleftrightarrow> j = 0 \<or> j = 1 \<or> j = 2 \<or> j = 3" for j :: nat by auto
  then show ?thesis by auto
qed

lemma combinations_4_3:
  "combinations [a, b, c, d] 3 = [[a, b, c], [a, b, d], [a, c, d], [b, c, d]]"
  by (simp add: numeral_3_eq_3)

lemma off_line_residuals:
  assumes len: "length Ps = 4" and i: "i < 4"
    and others: "take i Ps @ drop (Suc i) Ps = [P, Q, R]"
    and on: "on_common_line P Q R" and off: "off_line (Ps ! i) P Q"
  shows "\<forall>j<4. Ps ! i \<in> set (combinations Ps 3 ! j) \<longrightarrow>
           nonzero (map (\<lambda>t. coll_phi (t ! 0) (t ! 1) (t ! 2)) (combinations Ps 3) ! j)"
proof -
  obtain a b c d where Ps: "Ps = [a, b, c, d]"
    using len by (auto simp: length_Suc_conv numeral_eq_Suc)
  note n = off_line_pairs[OF on off]
  note m = nonzero_perm[OF n(1)] nonzero_perm[OF n(2)] nonzero_perm[OF n(3)]
  consider "i = 0" | "i = 1" | "i = 2" | "i = 3" using i by linarith
  then show ?thesis
  proof cases
    case 1
    then show ?thesis using others n m by (auto simp: Ps all_less_4 combinations_4_3)
  next
    case 2
    then show ?thesis using others n m by (auto simp: Ps all_less_4 combinations_4_3)
  next
    case 3
    then show ?thesis using others n m by (auto simp: Ps all_less_4 combinations_4_3 numeral_2_eq_2)
  next
    case 4
    then show ?thesis using others n m by (auto simp: Ps all_less_4 combinations_4_3 numeral_3_eq_3)
  qed
qed


text \<open>
  Claim C5. For every list of registered point names, \<open>assertion_vals\<close> on the predicate
  \<open>coll\<close> returns one \<open>coll_phi\<close> residual for each 3-combination of the points, in the
  order of \<open>combinations\<close>: \<open>C(k, 3)\<close> residuals for \<open>k\<close> names. For the points
  \<open>(0,0)\<close>, \<open>(1,1)\<close>, \<open>(2,2)\<close> it returns the single residual \<open>0\<close>. For four points, three
  of them pairwise distinct on a common line and the point at position \<open>i\<close> off that line,
  every residual whose triple contains the point at position \<open>i\<close> is a number other than
  zero.
\<close>

theorem coll_assertion_vals:
  assumes reg: "set ps \<subseteq> fst ` set (name2pt st)"
  shows "assertion_vals ''coll'' ps st
           = (Inr (triple_residuals (registered_pts st ps)),
              st\<lparr>segments := segments st @
                   map (\<lambda>i. (registered_pts st ps ! i, registered_pts st ps ! (i + 1)))
                     [0..<length ps - 1]\<rparr>)
         \<and> length (triple_residuals (registered_pts st ps)) = length ps choose 3
         \<and> (registered_pts st ps = [Point (Val 0) (Val 0), Point (Val 1) (Val 1), Point (Val 2) (Val 2)]
              \<longrightarrow> triple_residuals (registered_pts st ps) = [Val 0])
         \<and> (\<forall>i P Q R. length ps = 4 \<and> i < 4
                \<and> take i (registered_pts st ps) @ drop (Suc i) (registered_pts st ps) = [P, Q, R]
                \<and> on_common_line P Q R \<and> off_line (registered_pts st ps ! i) P Q
              \<longrightarrow> (\<forall>j<4. registered_pts st ps ! i \<in> set (combinations (registered_pts st ps) 3 ! j)
                      \<longrightarrow> nonzero (triple_residuals (registered_pts st ps) ! j)))"
proof (intro conjI allI impI)
  have l: "lookup_pts ps st = (Inr (registered_pts st ps), st)"
    unfolding registered_pts_def by (rule lookup_pts_registered[OF reg])
  have len: "length (registered_pts st ps) = length ps" by (simp add: registered_pts_def)
  show "assertion_vals ''coll'' ps st
           = (Inr (triple_residuals (registered_pts st ps)),
              st\<lparr>segments := segments st @
                   map (\<lambda>i. (registered_pts st ps ! i, registered_pts st ps ! (i + 1)))
                     [0..<length ps - 1]\<rparr>)"
    by (simp add: assertion_vals_coll bnd_def l Let_def for_each_segments ret_def
        triple_residuals_def len)
  show "length (triple_residuals (registered_pts st ps)) = length ps choose 3"
    by (simp add: triple_residuals_def length_combinations len)
next
  assume "registered_pts st ps = [Point (Val 0) (Val 0), Point (Val 1) (Val 1), Point (Val 2) (Val 2)]"
  then show "triple_residuals (registered_pts st ps) = [Val 0]"
    by (simp add: triple_residuals_def numeral_3_eq_3 coll_phi_def)
next
  fix i P Q R j
  assume h: "length ps = 4 \<and> i < 4
      \<and> take i (registered_pts st ps) @ drop (Suc i) (registered_pts st ps) = [P, Q, R]
      \<and> on_common_line P Q R \<and> off_line (registered_pts st ps ! i) P Q"
    and j: "j < 4" and mem: "registered_pts st ps ! i \<in> set (combinations (registered_pts st ps) 3 ! j)"
  have len: "length (registered_pts st ps) = 4" using h by (simp add: registered_pts_def)
  from off_line_residuals[OF len, of i P Q R] h j mem
  show "nonzero (triple_residuals (registered_pts st ps) ! j)"
    unfolding triple_residuals_def by blast
qed

lemma registered_pts_st_four:
  "registered_pts st_four [''A'', ''B'', ''C'', ''D'']
     = [Point (Val 0) (Val 0), Point (Val 1) (Val 1), Point (Val 2) (Val 2), Point (Val 0) (Val 1)]"
  "registered_pts st_four [''A'', ''B'', ''C'']
     = [Point (Val 0) (Val 0), Point (Val 1) (Val 1), Point (Val 2) (Val 2)]"
  by (simp_all add: registered_pts_def st_four_def)

theorem coll_assertion_vals_witness:
  "set [''A'', ''B'', ''C''] \<subseteq> fst ` set (name2pt st_four)
   \<and> fst (assertion_vals ''coll'' [''A'', ''B'', ''C''] st_four) = Inr [Val 0]
   \<and> set [''A'', ''B'', ''C'', ''D''] \<subseteq> fst ` set (name2pt st_four)
   \<and> length (triple_residuals (registered_pts st_four [''A'', ''B'', ''C'', ''D''])) = 4
   \<and> on_common_line (Point (Val 0) (Val 0)) (Point (Val 1) (Val 1)) (Point (Val 2) (Val 2))
   \<and> off_line (Point (Val 0) (Val 1)) (Point (Val 0) (Val 0)) (Point (Val 1) (Val 1))
   \<and> fst (assertion_vals ''coll'' [''A'', ''B'', ''C'', ''D''] st_four)
       = Inr (triple_residuals (registered_pts st_four [''A'', ''B'', ''C'', ''D'']))
   \<and> nonzero (triple_residuals (registered_pts st_four [''A'', ''B'', ''C'', ''D'']) ! 1)
   \<and> nonzero (triple_residuals (registered_pts st_four [''A'', ''B'', ''C'', ''D'']) ! 2)
   \<and> nonzero (triple_residuals (registered_pts st_four [''A'', ''B'', ''C'', ''D'']) ! 3)"
proof -
  let ?A = "Point (Val 0) (Val 0)" and ?B = "Point (Val 1) (Val 1)"
  let ?C = "Point (Val 2) (Val 2)" and ?D = "Point (Val 0) (Val 1)"
  let ?Ps = "registered_pts st_four [''A'', ''B'', ''C'', ''D'']"
  have r3: "set [''A'', ''B'', ''C''] \<subseteq> fst ` set (name2pt st_four)"
    by (simp add: st_four_def)
  have r4: "set [''A'', ''B'', ''C'', ''D''] \<subseteq> fst ` set (name2pt st_four)"
    by (simp add: st_four_def)
  have on: "on_common_line ?A ?B ?C"
    by (simp add: on_common_line_def real_pt_def coll_phi_def)
  have off: "off_line ?D ?A ?B"
    by (simp add: off_line_def real_pt_def coll_phi_def)
  have h: "length [''A'', ''B'', ''C'', ''D''] = 4 \<and> (3::nat) < 4
      \<and> take 3 ?Ps @ drop (Suc 3) ?Ps = [?A, ?B, ?C]
      \<and> on_common_line ?A ?B ?C \<and> off_line (?Ps ! 3) ?A ?B"
    using on off by (simp add: registered_pts_st_four)
  have mem: "?Ps ! 3 \<in> set (combinations ?Ps 3 ! 1)" "?Ps ! 3 \<in> set (combinations ?Ps 3 ! 2)"
    "?Ps ! 3 \<in> set (combinations ?Ps 3 ! 3)"
    by (simp_all add: registered_pts_st_four numeral_3_eq_3)
  note t3 = coll_assertion_vals[OF r3]
  note t4 = coll_assertion_vals[OF r4]
  have a: "fst (assertion_vals ''coll'' [''A'', ''B'', ''C''] st_four) = Inr [Val 0]"
    using t3 registered_pts_st_four(2) by simp
  have b: "fst (assertion_vals ''coll'' [''A'', ''B'', ''C'', ''D''] st_four) = Inr (triple_residuals ?Ps)"
    using t4 by simp
  have ch: "length [''A'', ''B'', ''C'', ''D''] choose 3 = 4" by (simp add: numeral_eq_Suc)
  have "length (triple_residuals ?Ps) = length [''A'', ''B'', ''C'', ''D''] choose 3"
    using t4 by blast
  then have c: "length (triple_residuals ?Ps) = 4" by (simp only: ch)
  have d: "\<forall>j<4. ?Ps ! 3 \<in> set (combinations ?Ps 3 ! j) \<longrightarrow> nonzero (triple_residuals ?Ps ! j)"
    using t4 h by blast
  have e: "nonzero (triple_residuals ?Ps ! 1)" "nonzero (triple_residuals ?Ps ! 2)"
    "nonzero (triple_residuals ?Ps ! 3)"
    using d mem by simp_all
  show ?thesis using r3 r4 on off a b c e by blast
qed

section \<open>Properties of the line-circle constructions\<close>

lemma rot90_real:
  "rotate_counterclockwise_90 (Point (Val u) (Val v)) = Point (Val (- v)) (Val u)"
  by (simp add: rotate_counterclockwise_90_def matrix_mul_def get_point_def const_def
      inner_product_def)

lemma foot_uv:
  fixes u v ax ay ox oy :: real
  assumes u: "u \<noteq> 0" and v: "v \<noteq> 0"
  defines "n \<equiv> u^2 + v^2"
  defines "T \<equiv> (ay - oy) * u - (ax - ox) * v"
  defines "m1 \<equiv> (- v) / (- u)"
  defines "m2 \<equiv> u / (- v)"
  defines "c1 \<equiv> ay - m1 * ax"
  defines "c2 \<equiv> oy - m2 * ox"
  shows "m1 - m2 \<noteq> 0"
    and "(c2 - c1) / (m1 - m2) = ox - T / n * v"
    and "m1 * ((c2 - c1) / (m1 - m2)) + c1 = oy + T / n * u"
proof -
  have n: "n \<noteq> 0" using u by (simp add: n_def sum_power2_eq_zero_iff)
  define N where "N = u * v * (oy - ay) + u^2 * ox + v^2 * ax"
  have e1: "m1 - m2 = n / (u * v)"
    unfolding m1_def m2_def n_def using u v by (simp add: field_simps power2_eq_square)
  have e2: "c2 - c1 = N / (u * v)"
    unfolding c1_def c2_def m1_def m2_def N_def using u v
    by (simp add: field_simps power2_eq_square)
  show nz: "m1 - m2 \<noteq> 0" using n u v by (simp add: e1)
  have ix: "(c2 - c1) / (m1 - m2) = N / n"
    unfolding e1 e2 using u v n by simp
  have N: "N = ox * n - T * v"
    unfolding N_def n_def T_def by (simp add: algebra_simps power2_eq_square)
  show ixx: "(c2 - c1) / (m1 - m2) = ox - T / n * v"
    unfolding ix N using n by (simp add: field_simps)
  have M: "v * (ox * n - T * v) + (ay * u - v * ax) * n = u * (oy * n + T * u)"
    unfolding n_def T_def by (simp add: algebra_simps power2_eq_square)
  have c1': "c1 = (ay * u - v * ax) / u"
    unfolding c1_def m1_def using u by (simp add: field_simps)
  have m1': "m1 = v / u" unfolding m1_def by simp
  have "m1 * (N / n) + c1 = (v * N + (ay * u - v * ax) * n) / (u * n)"
    unfolding c1' m1' using u n by (simp add: field_simps)
  also have "\<dots> = (u * (oy * n + T * u)) / (u * n)"
    unfolding N using M by simp
  also have "\<dots> = oy + T / n * u"
    using u n by (simp add: field_simps)
  finally show "m1 * ((c2 - c1) / (m1 - m2)) + c1 = oy + T / n * u"
    unfolding ix .
qed


lemma perp_foot:
  fixes a1 a2 b1 b2 o1 o2 :: real
  assumes x: "a1 \<noteq> b1" and y: "a2 \<noteq> b2"
  shows "inter_ll (pp2sif (Point (Val a1) (Val a2)) (Point (Val b1) (Val b2)))
           (pp2sif (Point (Val o1) (Val o2))
              (rotate_counterclockwise_90 (Point (Val a1) (Val a2) - Point (Val b1) (Val b2))
                 + Point (Val o1) (Val o2)))
         = Point (Val (foot_x o1 o2 a1 a2 b1 b2)) (Val (foot_y o1 o2 a1 a2 b1 b2))"
proof -
  have u: "a1 - b1 \<noteq> 0" and v: "a2 - b2 \<noteq> 0" using x y by simp_all
  have T: "(a2 - o2) * (a1 - b1) - (a1 - o1) * (a2 - b2) = tri_phi o1 o2 a1 a2 b1 b2"
    by (simp add: tri_phi_def algebra_simps)
  note f = foot_uv(1)[OF u v] foot_uv(2,3)[OF u v, where ax = a1 and ay = a2 and ox = o1 and oy = o2, unfolded T]
  have d: "b1 - a1 \<noteq> 0" "b2 - a2 \<noteq> 0" using x y by simp_all
  show ?thesis
    using f d
    by (simp add: pp2sif_def inter_ll_def get_point_def rot90_real minus_point_def plus_point_def
        Let_def foot_x_def foot_y_def)
qed


lemma NaN_power2: "(NaN :: scalar) ^ 2 = NaN"
  by (simp add: numeral_2_eq_2)

lemma foot_dist:
  fixes a1 a2 b1 b2 o1 o2 :: real
  assumes x: "a1 \<noteq> b1"
  shows "sqrt ((o1 - foot_x o1 o2 a1 a2 b1 b2)^2 + (o2 - foot_y o1 o2 a1 a2 b1 b2)^2)
           = line_dist o1 o2 a1 a2 b1 b2"
proof -
  define n where "n = (a1 - b1)^2 + (a2 - b2)^2"
  define T where "T = tri_phi o1 o2 a1 a2 b1 b2"
  have n: "n > 0" using x by (simp add: n_def sum_power2_gt_zero_iff)
  have e: "(t * v)^2 + (- (t * u))^2 = t^2 * (u^2 + v^2)" for t u v :: real
    by (simp add: power_mult_distrib algebra_simps)
  have fx: "o1 - foot_x o1 o2 a1 a2 b1 b2 = T / n * (a2 - b2)"
    by (simp add: foot_x_def T_def n_def)
  have fy: "o2 - foot_y o1 o2 a1 a2 b1 b2 = - (T / n * (a1 - b1))"
    by (simp add: foot_y_def T_def n_def)
  have "(o1 - foot_x o1 o2 a1 a2 b1 b2)^2 + (o2 - foot_y o1 o2 a1 a2 b1 b2)^2
          = (T / n)^2 * n"
    unfolding fx fy e n_def ..
  also have "\<dots> = T^2 / n" using n by (simp add: power2_eq_square)
  finally have "sqrt ((o1 - foot_x o1 o2 a1 a2 b1 b2)^2 + (o2 - foot_y o1 o2 a1 a2 b1 b2)^2)
          = sqrt (T^2 / n)" by simp
  also have "\<dots> = \<bar>T\<bar> / sqrt n" by (simp add: real_sqrt_divide)
  finally show ?thesis by (simp add: line_dist_def T_def n_def)
qed

lemma loss_general:
  fixes a1 a2 b1 b2 o1 o2 r :: real
  assumes x: "a1 \<noteq> b1" and y: "a2 \<noteq> b2"
  shows "lc_intersect_loss (pp2sif (Point (Val a1) (Val a2)) (Point (Val b1) (Val b2)))
           (CircleNF (Point (Val o1) (Val o2)) (Val r))
         = (if sqrt ((a1 - b1)^2 + (a2 - b2)^2) < 1 / 10 ^ 6 then Val 0
            else if r < line_dist o1 o2 a1 a2 b1 b2 then Val (line_dist o1 o2 a1 a2 b1 b2)
            else Val 0)"
proof -
  let ?A = "Point (Val a1) (Val a2)" and ?B = "Point (Val b1) (Val b2)"
  let ?O = "Point (Val o1) (Val o2)"
  have s: "pp2sif ?A ?B = SlopeInterceptForm (sif_m (pp2sif ?A ?B)) (sif_b (pp2sif ?A ?B)) ?A ?B"
    by (simp add: pp2sif_def Let_def)
  have F: "inter_ll (SlopeInterceptForm (sif_m (pp2sif ?A ?B)) (sif_b (pp2sif ?A ?B)) ?A ?B)
             (pp2sif ?O (rotate_counterclockwise_90 (?A - ?B) + ?O))
           = Point (Val (foot_x o1 o2 a1 a2 b1 b2)) (Val (foot_y o1 o2 a1 a2 b1 b2))"
    using perp_foot[OF x y, of o1 o2] s by simp
  have d: "dist_s ?O (Point (Val (foot_x o1 o2 a1 a2 b1 b2)) (Val (foot_y o1 o2 a1 a2 b1 b2)))
           = Val (line_dist o1 o2 a1 a2 b1 b2)"
    by (simp add: dist_s_Val foot_dist[OF x])
  have p: "dist_s ?O (rotate_counterclockwise_90 (?A - ?B) + ?O)
           = Val (sqrt ((a1 - b1)^2 + (a2 - b2)^2))"
    by (simp add: rot90_real minus_point_def plus_point_def dist_s_Val add.commute power2_commute)
  have ab: "dist_s ?A ?B = Val (sqrt ((a1 - b1)^2 + (a2 - b2)^2))"
    by (rule dist_s_Val)
  show ?thesis
    apply (subst s)
    apply (simp only: lc_intersect_loss_def SlopeInterceptForm.case CircleNF.case Let_def F d p ab)
    apply (simp add: cond_def logical_or_def const_def)
    done
qed

lemma loss_axis_parallel:
  fixes a1 a2 b1 b2 o1 o2 r :: real
  assumes "a1 = b1 \<or> a2 = b2"
  shows "lc_intersect_loss (pp2sif (Point (Val a1) (Val a2)) (Point (Val b1) (Val b2)))
           (CircleNF (Point (Val o1) (Val o2)) (Val r)) = Val 0"
  using assms
  by (auto simp: lc_intersect_loss_def pp2sif_def inter_ll_def Let_def get_point_def rot90_real
      minus_point_def plus_point_def dist_s_def sqdist_def cond_def const_def logical_or_def
      NaN_power2 Val_power2)


lemma loss_inside:
  fixes a1 a2 b1 b2 o1 o2 r :: real
  assumes "line_dist o1 o2 a1 a2 b1 b2 \<le> r"
  shows "lc_intersect_loss (pp2sif (Point (Val a1) (Val a2)) (Point (Val b1) (Val b2)))
           (CircleNF (Point (Val o1) (Val o2)) (Val r)) = Val 0"
proof (cases "a1 = b1 \<or> a2 = b2")
  case True
  then show ?thesis by (rule loss_axis_parallel)
next
  case False
  then show ?thesis using assms by (simp add: loss_general)
qed

lemma loss_degenerate:
  fixes a1 a2 b1 b2 o1 o2 r :: real
  assumes "sqrt ((a1 - b1)^2 + (a2 - b2)^2) < 1 / 10 ^ 6"
  shows "lc_intersect_loss (pp2sif (Point (Val a1) (Val a2)) (Point (Val b1) (Val b2)))
           (CircleNF (Point (Val o1) (Val o2)) (Val r)) = Val 0"
proof (cases "a1 = b1 \<or> a2 = b2")
  case True
  then show ?thesis by (rule loss_axis_parallel)
next
  case False
  then show ?thesis using assms by (simp add: loss_general)
qed

text \<open>
  Claim C3, as amended. For a line through \<open>A\<close> and \<open>B\<close> and a circle \<open>(O, r)\<close>, all with
  real coordinates, and \<open>d\<close> the distance from \<open>O\<close> to the line: \<open>make_lc_intersect\<close>
  registers the loss under the label \<open>interLC_name\<close> with weight \<open>1 / 10\<close>; the loss is
  exactly \<open>0\<close> whenever \<open>d \<le> r\<close>, and whenever \<open>dist A B\<close> is below \<open>1e-6\<close>; for a line
  that is neither vertical nor horizontal, with \<open>dist A B\<close> at least \<open>1e-6\<close> and \<open>d > r\<close>,
  the loss is \<open>d\<close> itself, so for one and the same circle it is strictly increasing in
  \<open>d - r\<close>.
\<close>

theorem make_lc_intersect_loss:
  fixes xa ya xb yb xc yc xd yd xo yo r :: real
  shows
    "make_lc_intersect name (pp2sif (Point (Val xa) (Val ya)) (Point (Val xb) (Val yb)))
        (CircleNF (Point (Val xo) (Val yo)) (Val r)) st
       = (Inr (), st\<lparr>losses := dict_set (''interLC_'' @ name)
            (lc_intersect_loss (pp2sif (Point (Val xa) (Val ya)) (Point (Val xb) (Val yb)))
               (CircleNF (Point (Val xo) (Val yo)) (Val r)), 1 / 10) (losses st)\<rparr>)
     \<and> (line_dist xo yo xa ya xb yb \<le> r \<longrightarrow>
          lc_intersect_loss (pp2sif (Point (Val xa) (Val ya)) (Point (Val xb) (Val yb)))
            (CircleNF (Point (Val xo) (Val yo)) (Val r)) = Val 0)
     \<and> (sqrt ((xa - xb)^2 + (ya - yb)^2) < 1 / 10 ^ 6 \<longrightarrow>
          lc_intersect_loss (pp2sif (Point (Val xa) (Val ya)) (Point (Val xb) (Val yb)))
            (CircleNF (Point (Val xo) (Val yo)) (Val r)) = Val 0)
     \<and> (xa \<noteq> xb \<and> ya \<noteq> yb \<and> 1 / 10 ^ 6 \<le> sqrt ((xa - xb)^2 + (ya - yb)^2)
          \<and> r < line_dist xo yo xa ya xb yb \<longrightarrow>
          lc_intersect_loss (pp2sif (Point (Val xa) (Val ya)) (Point (Val xb) (Val yb)))
            (CircleNF (Point (Val xo) (Val yo)) (Val r)) = Val (line_dist xo yo xa ya xb yb))
     \<and> (xa \<noteq> xb \<and> ya \<noteq> yb \<and> 1 / 10 ^ 6 \<le> sqrt ((xa - xb)^2 + (ya - yb)^2)
          \<and> xc \<noteq> xd \<and> yc \<noteq> yd \<and> 1 / 10 ^ 6 \<le> sqrt ((xc - xd)^2 + (yc - yd)^2)
          \<and> r < line_dist xo yo xa ya xb yb
          \<and> line_dist xo yo xa ya xb yb - r < line_dist xo yo xc yc xd yd - r \<longrightarrow>
          lt (lc_intersect_loss (pp2sif (Point (Val xa) (Val ya)) (Point (Val xb) (Val yb)))
                (CircleNF (Point (Val xo) (Val yo)) (Val r)))
             (lc_intersect_loss (pp2sif (Point (Val xc) (Val yc)) (Point (Val xd) (Val yd)))
                (CircleNF (Point (Val xo) (Val yo)) (Val r))))"
proof (intro conjI impI)
  show "make_lc_intersect name (pp2sif (Point (Val xa) (Val ya)) (Point (Val xb) (Val yb)))
        (CircleNF (Point (Val xo) (Val yo)) (Val r)) st
       = (Inr (), st\<lparr>losses := dict_set (''interLC_'' @ name)
            (lc_intersect_loss (pp2sif (Point (Val xa) (Val ya)) (Point (Val xb) (Val yb)))
               (CircleNF (Point (Val xo) (Val yo)) (Val r)), 1 / 10) (losses st)\<rparr>)"
    by (simp add: make_lc_intersect_def register_loss_def)
next
  assume "line_dist xo yo xa ya xb yb \<le> r"
  then show "lc_intersect_loss (pp2sif (Point (Val xa) (Val ya)) (Point (Val xb) (Val yb)))
            (CircleNF (Point (Val xo) (Val yo)) (Val r)) = Val 0"
    by (rule loss_inside)
next
  assume "sqrt ((xa - xb)^2 + (ya - yb)^2) < 1 / 10 ^ 6"
  then show "lc_intersect_loss (pp2sif (Point (Val xa) (Val ya)) (Point (Val xb) (Val yb)))
            (CircleNF (Point (Val xo) (Val yo)) (Val r)) = Val 0"
    by (rule loss_degenerate)
next
  assume "xa \<noteq> xb \<and> ya \<noteq> yb \<and> 1 / 10 ^ 6 \<le> sqrt ((xa - xb)^2 + (ya - yb)^2)
          \<and> r < line_dist xo yo xa ya xb yb"
  then show "lc_intersect_loss (pp2sif (Point (Val xa) (Val ya)) (Point (Val xb) (Val yb)))
            (CircleNF (Point (Val xo) (Val yo)) (Val r)) = Val (line_dist xo yo xa ya xb yb)"
    by (simp add: loss_general)
next
  assume h: "xa \<noteq> xb \<and> ya \<noteq> yb \<and> 1 / 10 ^ 6 \<le> sqrt ((xa - xb)^2 + (ya - yb)^2)
          \<and> xc \<noteq> xd \<and> yc \<noteq> yd \<and> 1 / 10 ^ 6 \<le> sqrt ((xc - xd)^2 + (yc - yd)^2)
          \<and> r < line_dist xo yo xa ya xb yb
          \<and> line_dist xo yo xa ya xb yb - r < line_dist xo yo xc yc xd yd - r"
  then have "r < line_dist xo yo xc yc xd yd" by linarith
  with h show "lt (lc_intersect_loss (pp2sif (Point (Val xa) (Val ya)) (Point (Val xb) (Val yb)))
                (CircleNF (Point (Val xo) (Val yo)) (Val r)))
             (lc_intersect_loss (pp2sif (Point (Val xc) (Val yc)) (Point (Val xd) (Val yd)))
                (CircleNF (Point (Val xo) (Val yo)) (Val r)))"
    by (simp add: loss_general)
qed

lemma sqrt_25: "sqrt 25 = 5"
  using real_sqrt_abs[of 5] by simp

lemma sqrt_100: "sqrt 100 = 10"
  using real_sqrt_abs[of 10] by simp

lemma line_dist_examples:
  "line_dist 0 0 0 5 4 2 = 4" "line_dist 0 0 2 1 (- 2) 4 = 2" "line_dist 0 0 0 10 8 4 = 8"
  by (simp_all add: line_dist_def tri_phi_def sqrt_25 sqrt_100)

theorem make_lc_intersect_loss_witness:
  "line_dist 0 0 0 5 4 2 \<le> 5
   \<and> lc_intersect_loss (pp2sif (Point (Val 0) (Val 5)) (Point (Val 4) (Val 2)))
        (CircleNF (Point (Val 0) (Val 0)) (Val 5)) = Val 0
   \<and> sqrt (((1::real) - 1)^2 + ((1::real) - 1)^2) < 1 / 10 ^ 6
   \<and> lc_intersect_loss (pp2sif (Point (Val 1) (Val 1)) (Point (Val 1) (Val 1)))
        (CircleNF (Point (Val 0) (Val 0)) (Val 5)) = Val 0
   \<and> ((0::real) \<noteq> 4 \<and> (5::real) \<noteq> 2 \<and> 1 / 10 ^ 6 \<le> sqrt (((0::real) - 4)^2 + ((5::real) - 2)^2)
        \<and> (0::real) \<noteq> 8 \<and> (10::real) \<noteq> 4 \<and> 1 / 10 ^ 6 \<le> sqrt (((0::real) - 8)^2 + ((10::real) - 4)^2)
        \<and> 3 < line_dist 0 0 0 5 4 2
        \<and> line_dist 0 0 0 5 4 2 - 3 < line_dist 0 0 0 10 8 4 - 3)
   \<and> lc_intersect_loss (pp2sif (Point (Val 0) (Val 5)) (Point (Val 4) (Val 2)))
        (CircleNF (Point (Val 0) (Val 0)) (Val 3)) = Val (line_dist 0 0 0 5 4 2)
   \<and> lt (lc_intersect_loss (pp2sif (Point (Val 0) (Val 5)) (Point (Val 4) (Val 2)))
            (CircleNF (Point (Val 0) (Val 0)) (Val 3)))
         (lc_intersect_loss (pp2sif (Point (Val 0) (Val 10)) (Point (Val 8) (Val 4)))
            (CircleNF (Point (Val 0) (Val 0)) (Val 3)))"
proof -
  have h1: "line_dist 0 0 0 5 4 2 \<le> 5" by (simp add: line_dist_examples)
  have h2: "sqrt (((1::real) - 1)^2 + ((1::real) - 1)^2) < 1 / 10 ^ 6" by simp
  have h3: "(0::real) \<noteq> 4 \<and> (5::real) \<noteq> 2 \<and> 1 / 10 ^ 6 \<le> sqrt (((0::real) - 4)^2 + ((5::real) - 2)^2)
        \<and> (0::real) \<noteq> 8 \<and> (10::real) \<noteq> 4 \<and> 1 / 10 ^ 6 \<le> sqrt (((0::real) - 8)^2 + ((10::real) - 4)^2)
        \<and> 3 < line_dist 0 0 0 5 4 2
        \<and> line_dist 0 0 0 5 4 2 - 3 < line_dist 0 0 0 10 8 4 - 3"
    by (simp add: line_dist_examples sqrt_25 sqrt_100)
  note t1 = make_lc_intersect_loss[where xa = 0 and ya = 5 and xb = 4 and yb = 2 and xo = 0
      and yo = 0 and r = 5 and xc = 0 and yc = 10 and xd = 8 and yd = 4 and name = "[]"
      and st = "Optimizer_init []"]
  note t2 = make_lc_intersect_loss[where xa = 1 and ya = 1 and xb = 1 and yb = 1 and xo = 0
      and yo = 0 and r = 5 and xc = 0 and yc = 10 and xd = 8 and yd = 4 and name = "[]"
      and st = "Optimizer_init []"]
  note t3 = make_lc_intersect_loss[where xa = 0 and ya = 5 and xb = 4 and yb = 2 and xo = 0
      and yo = 0 and r = 3 and xc = 0 and yc = 10 and xd = 8 and yd = 4 and name = "[]"
      and st = "Optimizer_init []"]
  have c1: "lc_intersect_loss (pp2sif (Point (Val 0) (Val 5)) (Point (Val 4) (Val 2)))
        (CircleNF (Point (Val 0) (Val 0)) (Val 5)) = Val 0"
    using t1 h1 by blast
  have c2: "lc_intersect_loss (pp2sif (Point (Val 1) (Val 1)) (Point (Val 1) (Val 1)))
        (CircleNF (Point (Val 0) (Val 0)) (Val 5)) = Val 0"
    using t2 h2 by blast
  have c3: "lc_intersect_loss (pp2sif (Point (Val 0) (Val 5)) (Point (Val 4) (Val 2)))
        (CircleNF (Point (Val 0) (Val 0)) (Val 3)) = Val (line_dist 0 0 0 5 4 2)"
    using t3 h3 by blast
  have c4: "lt (lc_intersect_loss (pp2sif (Point (Val 0) (Val 5)) (Point (Val 4) (Val 2)))
            (CircleNF (Point (Val 0) (Val 0)) (Val 3)))
         (lc_intersect_loss (pp2sif (Point (Val 0) (Val 10)) (Point (Val 8) (Val 4)))
            (CircleNF (Point (Val 0) (Val 0)) (Val 3)))"
    using t3 h3 by blast
  show ?thesis using h1 h2 h3 c1 c2 c3 c4 by blast
qed


text \<open>
  The claim as stated fails. The loss is no function of the excess \<open>d - r\<close>: the line
  through \<open>(0, 5)\<close> and \<open>(4, 2)\<close> at distance \<open>4\<close> from the centre of a circle of radius
  \<open>3\<close> has the loss \<open>4\<close>, the line through \<open>(2, 1)\<close> and \<open>(-2, 4)\<close> at distance \<open>2\<close>
  from the centre of a circle of radius \<open>1 / 2\<close> has the larger excess and the smaller
  loss \<open>2\<close>. And the horizontal line through \<open>(0, 5)\<close> and \<open>(1, 5)\<close>, at distance \<open>5\<close>
  from the centre of the unit circle, has the loss \<open>0\<close>: the perpendicular is vertical
  and has no slope-intercept form.
\<close>

theorem lc_loss_not_in_excess_counterexample:
  "lc_intersect_loss (pp2sif (Point (Val 0) (Val 5)) (Point (Val 4) (Val 2)))
      (CircleNF (Point (Val 0) (Val 0)) (Val 3)) = Val 4
   \<and> lc_intersect_loss (pp2sif (Point (Val 2) (Val 1)) (Point (Val (- 2)) (Val 4)))
      (CircleNF (Point (Val 0) (Val 0)) (Val (1 / 2))) = Val 2
   \<and> line_dist 0 0 0 5 4 2 = 4 \<and> line_dist 0 0 2 1 (- 2) 4 = 2
   \<and> (4::real) - 3 < 2 - 1 / 2 \<and> \<not> (4::real) < 2
   \<and> line_dist 0 0 0 5 1 5 = 5 \<and> (1::real) < 5
   \<and> lc_intersect_loss (pp2sif (Point (Val 0) (Val 5)) (Point (Val 1) (Val 5)))
      (CircleNF (Point (Val 0) (Val 0)) (Val 1)) = Val 0"
proof -
  have a: "lc_intersect_loss (pp2sif (Point (Val 0) (Val 5)) (Point (Val 4) (Val 2)))
      (CircleNF (Point (Val 0) (Val 0)) (Val 3)) = Val 4"
    by (simp add: loss_general line_dist_examples sqrt_25)
  have b: "lc_intersect_loss (pp2sif (Point (Val 2) (Val 1)) (Point (Val (- 2)) (Val 4)))
      (CircleNF (Point (Val 0) (Val 0)) (Val (1 / 2))) = Val 2"
    by (simp add: loss_general line_dist_examples sqrt_25)
  have c: "lc_intersect_loss (pp2sif (Point (Val 0) (Val 5)) (Point (Val 1) (Val 5)))
      (CircleNF (Point (Val 0) (Val 0)) (Val 1)) = Val 0"
    by (simp add: loss_axis_parallel)
  have d: "line_dist 0 0 0 5 1 5 = 5"
    by (simp add: line_dist_def tri_phi_def)
  show ?thesis using a b c d by (simp add: line_dist_examples)
qed

lemma inter_pp_c_neg_branch:
  fixes xp yp xq yq xo yo r :: real
  assumes neg: "lc_radicand xo yo r xp yp xq yq < 0"
  shows "inter_pp_c (Point (Val xp) (Val yp)) (Point (Val xq) (Val yq))
           (CircleNF (Point (Val xo) (Val yo)) (Val r))
         = (let O' = Point (Val xo) (Val yo);
                P1 = Point (Val (xp - xo)) (Val (yp - yo));
                P2 = Point (Val (xq - xo)) (Val (yq - yo));
                Operp = rotate_counterclockwise_90 (P1 - P2) + O';
                F = inter_ll (pp2sif P1 P2) (pp2sif O' Operp);
                X = O' + smul (F - O') (Val r / dist_s O' F);
                Q = midp F X
            in unshift O' [Q, Q])"
proof -
  have n: "(xp - xo - (xq - xo))^2 + (yp - yo - (yq - yo))^2 = (xp - xq)^2 + (yp - yq)^2"
    by simp
  have nn: "\<not> (xp - xq)^2 + (yp - yq)^2 < 0" by (simp add: not_less)
  have sq: "(sqrt ((xp - xq)^2 + (yp - yq)^2))^2 = (xp - xq)^2 + (yp - yq)^2"
    by simp
  have rad: "(Val r) ^ 2 * (sqrt_s ((Val (xp - xq)) ^ 2 + (Val (yp - yq)) ^ 2)) ^ 2
               - (Val ((xq - xo) * (yp - yo) - (xp - xo) * (yq - yo))) ^ 2
             = Val (lc_radicand xo yo r xp yp xq yq)"
    using nn by (simp add: Val_power2 lc_radicand_def)
  show ?thesis
    unfolding inter_pp_c_def CircleNF.case shift_def
    apply (simp only: Let_def list.map nth_Cons_0 nth_Cons_Suc One_nat_def get_point_def
        point.sel minus_scalar.simps)
    apply (simp add: cond_def const_def neg rad)
    done
qed


lemma inter_pp_c_neg_origin:
  fixes xp yp xq yq r :: real
  assumes neg: "lc_radicand 0 0 r xp yp xq yq < 0" and x: "xp \<noteq> xq" and y: "yp \<noteq> yq"
  defines "fx \<equiv> foot_x 0 0 xp yp xq yq" and "fy \<equiv> foot_y 0 0 xp yp xq yq"
    and "d \<equiv> line_dist 0 0 xp yp xq yq"
  shows "inter_pp_c (Point (Val xp) (Val yp)) (Point (Val xq) (Val yq))
           (CircleNF (Point (Val 0) (Val 0)) (Val r))
         = [Point (Val ((fx + fx * (r / d)) * (1 / 2))) (Val ((fy + fy * (r / d)) * (1 / 2))),
            Point (Val ((fx + fx * (r / d)) * (1 / 2))) (Val ((fy + fy * (r / d)) * (1 / 2)))]"
    and "\<bar>r\<bar> < d"
proof -
  define n where "n = (xp - xq)^2 + (yp - yq)^2"
  define T where "T = tri_phi 0 0 xp yp xq yq"
  have n: "n > 0" using x by (simp add: n_def sum_power2_gt_zero_iff)
  have "r^2 * n < T^2"
    using neg by (simp add: lc_radicand_def n_def T_def tri_phi_def power2_commute)
  then have "r^2 < T^2 / n" using n by (simp add: pos_less_divide_eq)
  also have "T^2 / n = d^2"
    using n by (simp add: d_def line_dist_def T_def n_def power_divide)
  finally have "r^2 < d^2" .
  moreover have d0: "0 \<le> d" by (simp add: d_def line_dist_def)
  ultimately show rd: "\<bar>r\<bar> < d"
    using abs_le_square_iff[of d r] by (simp add: not_le[symmetric])
  then have dne: "d \<noteq> 0" by auto
  have F: "inter_ll (pp2sif (Point (Val xp) (Val yp)) (Point (Val xq) (Val yq)))
             (pp2sif (Point (Val 0) (Val 0))
                (rotate_counterclockwise_90 (Point (Val xp) (Val yp) - Point (Val xq) (Val yq))
                   + Point (Val 0) (Val 0)))
           = Point (Val fx) (Val fy)"
    unfolding fx_def fy_def by (rule perp_foot[OF x y])
  have dF: "dist_s (Point (Val 0) (Val 0)) (Point (Val fx) (Val fy)) = Val d"
    unfolding fx_def fy_def d_def using foot_dist[OF x, of 0 0 yp yq] by (simp add: dist_s_Val)
  show "inter_pp_c (Point (Val xp) (Val yp)) (Point (Val xq) (Val yq))
           (CircleNF (Point (Val 0) (Val 0)) (Val r))
         = [Point (Val ((fx + fx * (r / d)) * (1 / 2))) (Val ((fy + fy * (r / d)) * (1 / 2))),
            Point (Val ((fx + fx * (r / d)) * (1 / 2))) (Val ((fy + fy * (r / d)) * (1 / 2)))]"
    apply (subst inter_pp_c_neg_branch[OF neg])
    apply (simp only: Let_def diff_zero F dF)
    apply (simp add: dne unshift_def get_point_def midp_def smul_def plus_point_def
        minus_point_def)
    done
qed


lemma scaled_norm:
  fixes u v k :: real
  shows "sqrt ((u * k)^2 + (v * k)^2) = \<bar>k\<bar> * sqrt (u^2 + v^2)"
proof -
  have "(u * k)^2 + (v * k)^2 = k^2 * (u^2 + v^2)"
    by (simp add: power_mult_distrib algebra_simps)
  then show ?thesis by (simp add: real_sqrt_mult)
qed

lemma foot_on_line:
  fixes xp yp xq yq :: real
  assumes x: "xp \<noteq> xq"
  shows "tri_phi (foot_x 0 0 xp yp xq yq) (foot_y 0 0 xp yp xq yq) xp yp xq yq = 0"
    and "(0 - foot_x 0 0 xp yp xq yq) * (xp - xq) + (0 - foot_y 0 0 xp yp xq yq) * (yp - yq) = 0"
proof -
  define n where "n = (xp - xq)^2 + (yp - yq)^2"
  define t where "t = tri_phi 0 0 xp yp xq yq / n"
  have n: "n \<noteq> 0" using x by (simp add: n_def sum_power2_eq_zero_iff)
  have fx: "foot_x 0 0 xp yp xq yq = - (t * (yp - yq))" and fy: "foot_y 0 0 xp yp xq yq = t * (xp - xq)"
    by (simp_all add: foot_x_def foot_y_def t_def n_def)
  have tn: "t * n = tri_phi 0 0 xp yp xq yq" using n by (simp add: t_def)
  have "tri_phi (- (t * (yp - yq))) (t * (xp - xq)) xp yp xq yq = tri_phi 0 0 xp yp xq yq - t * n"
    by (simp add: tri_phi_def n_def algebra_simps power2_eq_square)
  then show "tri_phi (foot_x 0 0 xp yp xq yq) (foot_y 0 0 xp yp xq yq) xp yp xq yq = 0"
    by (simp add: fx fy tn)
  show "(0 - foot_x 0 0 xp yp xq yq) * (xp - xq) + (0 - foot_y 0 0 xp yp xq yq) * (yp - yq) = 0"
    by (simp add: fx fy algebra_simps)
qed

text \<open>
  Claim C2, as amended. For a line through two points and a circle, with real coordinates
  and a negative radicand, \<open>inter_pp_c\<close> takes the fallback branch of \<open>cond\<close> and returns
  the same point twice. For a circle centred at the origin with radius \<open>r \<ge> 0\<close> and a line
  that is neither vertical nor horizontal, that point \<open>Q\<close> is defined: it is the midpoint of
  \<open>F\<close>, the foot of the perpendicular from the centre to the line, and \<open>X\<close>, the projection
  of \<open>F\<close> onto the circle. It lies at the distance \<open>(d + r) / 2\<close> from the centre, strictly
  between the circle and the line.
\<close>

theorem inter_pp_c_negative_radicand:
  fixes xp yp xq yq xo yo r :: real
  assumes neg: "lc_radicand xo yo r xp yp xq yq < 0"
  shows "(\<exists>R. inter_pp_c (Point (Val xp) (Val yp)) (Point (Val xq) (Val yq))
                (CircleNF (Point (Val xo) (Val yo)) (Val r)) = [R, R])
       \<and> (xo = 0 \<and> yo = 0 \<and> xp \<noteq> xq \<and> yp \<noteq> yq \<and> 0 \<le> r \<longrightarrow>
            (\<exists>F X Q d.
               inter_pp_c (Point (Val xp) (Val yp)) (Point (Val xq) (Val yq))
                 (CircleNF (Point (Val xo) (Val yo)) (Val r)) = [Q, Q]
               \<and> real_pt F \<and> real_pt X \<and> real_pt Q
               \<and> coll_phi F (Point (Val xp) (Val yp)) (Point (Val xq) (Val yq)) = Val 0
               \<and> perp_phi (Point (Val xo) (Val yo)) F (Point (Val xp) (Val yp)) (Point (Val xq) (Val yq))
                   = Val 0
               \<and> dist_s (Point (Val xo) (Val yo)) F = Val d
               \<and> X = Point (Val xo) (Val yo)
                     + smul (F - Point (Val xo) (Val yo)) (Val r / dist_s (Point (Val xo) (Val yo)) F)
               \<and> dist_s (Point (Val xo) (Val yo)) X = Val r
               \<and> Q = midp F X
               \<and> dist_s (Point (Val xo) (Val yo)) Q = Val ((d + r) / 2)
               \<and> r < (d + r) / 2 \<and> (d + r) / 2 < d))"
proof (intro conjI impI)
  show "\<exists>R. inter_pp_c (Point (Val xp) (Val yp)) (Point (Val xq) (Val yq))
                (CircleNF (Point (Val xo) (Val yo)) (Val r)) = [R, R]"
    by (simp add: inter_pp_c_neg_branch[OF neg] Let_def unshift_def)
next
  assume h: "xo = 0 \<and> yo = 0 \<and> xp \<noteq> xq \<and> yp \<noteq> yq \<and> 0 \<le> r"
  then have x: "xp \<noteq> xq" and y: "yp \<noteq> yq" and r: "0 \<le> r" and o: "xo = 0" "yo = 0"
    by simp_all
  have neg0: "lc_radicand 0 0 r xp yp xq yq < 0" using neg o by simp
  define fx where "fx = foot_x 0 0 xp yp xq yq"
  define fy where "fy = foot_y 0 0 xp yp xq yq"
  define d where "d = line_dist 0 0 xp yp xq yq"
  define k where "k = (1 + r / d) * (1 / 2)"
  let ?O = "Point (Val 0) (Val 0)"
  let ?F = "Point (Val fx) (Val fy)"
  let ?X = "Point (Val (fx * (r / d))) (Val (fy * (r / d)))"
  let ?Q = "Point (Val (fx * k)) (Val (fy * k))"
  note m = inter_pp_c_neg_origin[OF neg0 x y, folded fx_def fy_def d_def]
  have rd: "r < d" and d0: "0 < d" using m(2) r by auto
  have k0: "0 \<le> k" using r d0 by (simp add: k_def)
  have kd: "k * d = (d + r) / 2" using d0 by (simp add: k_def field_simps)
  have nF: "sqrt (fx^2 + fy^2) = d"
    using foot_dist[OF x, of 0 0 yp yq] by (simp add: fx_def fy_def d_def)
  have Qeq: "(fx + fx * (r / d)) * (1 / 2) = fx * k" "(fy + fy * (r / d)) * (1 / 2) = fy * k"
    by (simp_all add: k_def algebra_simps)
  have 1: "inter_pp_c (Point (Val xp) (Val yp)) (Point (Val xq) (Val yq))
                 (CircleNF (Point (Val xo) (Val yo)) (Val r)) = [?Q, ?Q]"
    using m(1)[unfolded Qeq] by (simp only: o)
  have 2: "real_pt ?F" "real_pt ?X" "real_pt ?Q" by (simp_all add: real_pt_def)
  have 3: "coll_phi ?F (Point (Val xp) (Val yp)) (Point (Val xq) (Val yq)) = Val 0"
    using foot_on_line(1)[OF x, of yp yq] by (simp add: coll_phi_real fx_def fy_def)
  have 4: "perp_phi ?O ?F (Point (Val xp) (Val yp)) (Point (Val xq) (Val yq)) = Val 0"
    using foot_on_line(2)[OF x, of yp yq] by (simp add: perp_phi_def fx_def fy_def)
  have 5: "dist_s ?O ?F = Val d" by (simp add: dist_s_Val nF)
  have 6: "?X = ?O + smul (?F - ?O) (Val r / dist_s ?O ?F)"
    using d0 by (simp add: 5 smul_def plus_point_def minus_point_def)
  have "sqrt ((fx * (r / d))^2 + (fy * (r / d))^2) = \<bar>r / d\<bar> * d"
    unfolding scaled_norm nF ..
  also have "\<dots> = r" using r d0 by simp
  finally have n7: "sqrt ((0 - fx * (r / d))^2 + (0 - fy * (r / d))^2) = r" by simp
  have 7: "dist_s ?O ?X = Val r"
    unfolding dist_s_Val n7 ..
  have 8: "?Q = midp ?F ?X"
    by (simp only: midp_def smul_def plus_point_def point.sel plus_scalar.simps
        times_scalar.simps Qeq)
  have "sqrt ((fx * k)^2 + (fy * k)^2) = \<bar>k\<bar> * d"
    unfolding scaled_norm nF ..
  also have "\<dots> = (d + r) / 2" using k0 kd by simp
  finally have n9: "sqrt ((0 - fx * k)^2 + (0 - fy * k)^2) = (d + r) / 2" by simp
  have 9: "dist_s ?O ?Q = Val ((d + r) / 2)"
    unfolding dist_s_Val n9 ..
  have 10: "r < (d + r) / 2" "(d + r) / 2 < d" using rd by simp_all
  show "\<exists>F X Q d.
               inter_pp_c (Point (Val xp) (Val yp)) (Point (Val xq) (Val yq))
                 (CircleNF (Point (Val xo) (Val yo)) (Val r)) = [Q, Q]
               \<and> real_pt F \<and> real_pt X \<and> real_pt Q
               \<and> coll_phi F (Point (Val xp) (Val yp)) (Point (Val xq) (Val yq)) = Val 0
               \<and> perp_phi (Point (Val xo) (Val yo)) F (Point (Val xp) (Val yp)) (Point (Val xq) (Val yq))
                   = Val 0
               \<and> dist_s (Point (Val xo) (Val yo)) F = Val d
               \<and> X = Point (Val xo) (Val yo)
                     + smul (F - Point (Val xo) (Val yo)) (Val r / dist_s (Point (Val xo) (Val yo)) F)
               \<and> dist_s (Point (Val xo) (Val yo)) X = Val r
               \<and> Q = midp F X
               \<and> dist_s (Point (Val xo) (Val yo)) Q = Val ((d + r) / 2)
               \<and> r < (d + r) / 2 \<and> (d + r) / 2 < d"
    unfolding o
    apply (rule exI[of _ ?F], rule exI[of _ ?X], rule exI[of _ ?Q], rule exI[of _ d])
    using 1[unfolded o] 2 3 4 5 6 7 8 9 10 by blast
qed


theorem inter_pp_c_negative_radicand_witness:
  "lc_radicand 0 0 1 2 1 (- 2) 4 < 0
   \<and> ((0::real) = 0 \<and> (0::real) = 0 \<and> (2::real) \<noteq> - 2 \<and> (1::real) \<noteq> 4 \<and> (0::real) \<le> 1)
   \<and> (\<exists>R. inter_pp_c (Point (Val 2) (Val 1)) (Point (Val (- 2)) (Val 4))
                (CircleNF (Point (Val 0) (Val 0)) (Val 1)) = [R, R])
   \<and> (\<exists>F X Q d.
               inter_pp_c (Point (Val 2) (Val 1)) (Point (Val (- 2)) (Val 4))
                 (CircleNF (Point (Val 0) (Val 0)) (Val 1)) = [Q, Q]
               \<and> real_pt F \<and> real_pt X \<and> real_pt Q
               \<and> coll_phi F (Point (Val 2) (Val 1)) (Point (Val (- 2)) (Val 4)) = Val 0
               \<and> perp_phi (Point (Val 0) (Val 0)) F (Point (Val 2) (Val 1)) (Point (Val (- 2)) (Val 4))
                   = Val 0
               \<and> dist_s (Point (Val 0) (Val 0)) F = Val d
               \<and> X = Point (Val 0) (Val 0)
                     + smul (F - Point (Val 0) (Val 0)) (Val 1 / dist_s (Point (Val 0) (Val 0)) F)
               \<and> dist_s (Point (Val 0) (Val 0)) X = Val 1
               \<and> Q = midp F X
               \<and> dist_s (Point (Val 0) (Val 0)) Q = Val ((d + 1) / 2)
               \<and> 1 < (d + 1) / 2 \<and> (d + 1) / 2 < d)"
proof -
  have h1: "lc_radicand 0 0 1 2 1 (- 2) 4 < 0" by (simp add: lc_radicand_def)
  have h2: "(0::real) = 0 \<and> (0::real) = 0 \<and> (2::real) \<noteq> - 2 \<and> (1::real) \<noteq> 4 \<and> (0::real) \<le> 1"
    by simp
  show ?thesis
    using h1 h2 inter_pp_c_negative_radicand[OF h1] by blast
qed

lemma sqrt_9_4: "sqrt (9 / 4) = 3 / 2"
  using real_sqrt_abs[of "3 / 2"] by (simp add: power2_eq_square)

text \<open>
  The claim as stated fails. For the unit circle at the origin and the line through
  \<open>(2, 1)\<close> and \<open>(-2, 4)\<close> the returned point \<open>(9/10, 6/5)\<close> lies at the distance \<open>3/2\<close>
  from the centre, so it is not the projection of the nearest point of the line onto the
  circle. For the vertical line through \<open>(2, 0)\<close> and \<open>(2, 1)\<close> the slope divides by zero
  and both coordinates of the returned point are undefined.
\<close>

theorem inter_pp_c_fallback_counterexample:
  "lc_radicand 0 0 1 2 1 (- 2) 4 < 0
   \<and> inter_pp_c (Point (Val 2) (Val 1)) (Point (Val (- 2)) (Val 4))
        (CircleNF (Point (Val 0) (Val 0)) (Val 1))
       = [Point (Val (9 / 10)) (Val (6 / 5)), Point (Val (9 / 10)) (Val (6 / 5))]
   \<and> dist_s (Point (Val 0) (Val 0)) (Point (Val (9 / 10)) (Val (6 / 5))) = Val (3 / 2)
   \<and> Val (3 / 2) \<noteq> Val 1
   \<and> lc_radicand 0 0 1 2 0 2 1 < 0
   \<and> inter_pp_c (Point (Val 2) (Val 0)) (Point (Val 2) (Val 1))
        (CircleNF (Point (Val 0) (Val 0)) (Val 1))
       = [Point NaN NaN, Point NaN NaN]"
proof -
  have h1: "lc_radicand 0 0 1 2 1 (- 2) 4 < 0" by (simp add: lc_radicand_def)
  have h2: "lc_radicand 0 0 1 2 0 2 1 < 0" by (simp add: lc_radicand_def)
  have x: "(2::real) \<noteq> - 2" and y: "(1::real) \<noteq> 4" by simp_all
  have d: "line_dist 0 0 2 1 (- 2) 4 = 2"
    by (simp add: line_dist_def tri_phi_def sqrt_25)
  have f: "foot_x 0 0 2 1 (- 2) 4 = 6 / 5" "foot_y 0 0 2 1 (- 2) 4 = 8 / 5"
    by (simp_all add: foot_x_def foot_y_def tri_phi_def)
  have a: "inter_pp_c (Point (Val 2) (Val 1)) (Point (Val (- 2)) (Val 4))
        (CircleNF (Point (Val 0) (Val 0)) (Val 1))
       = [Point (Val (9 / 10)) (Val (6 / 5)), Point (Val (9 / 10)) (Val (6 / 5))]"
    using inter_pp_c_neg_origin(1)[OF h1 x y] by (simp add: d f)
  have b: "dist_s (Point (Val 0) (Val 0)) (Point (Val (9 / 10)) (Val (6 / 5))) = Val (3 / 2)"
    by (simp add: dist_s_Val power2_eq_square sqrt_9_4)
  have c: "inter_pp_c (Point (Val 2) (Val 0)) (Point (Val 2) (Val 1))
        (CircleNF (Point (Val 0) (Val 0)) (Val 1))
       = [Point NaN NaN, Point NaN NaN]"
    by (simp add: inter_pp_c_neg_branch[OF h2] Let_def pp2sif_def inter_ll_def get_point_def
        rot90_real minus_point_def plus_point_def dist_s_def sqdist_def NaN_power2 smul_def
        midp_def unshift_def)
  show ?thesis using h1 h2 a b c by simp
qed

end
